theory Spec2Isabelle
  imports Main "HOL-Library.AList"
begin

section \<open>The app loader of packages/app/src/cli/models/app/loader.ts\<close>

text \<open>
  The loader reads a directory tree and assembles the in-memory model of an app. This
  theory embeds its functions one by one. The file system, the TOML decoder, the schema
  validator and the path functions come from other packages; they are fields of the
  record \<open>env\<close> below and stay uninterpreted in every general theorem.
\<close>

subsection \<open>JavaScript values\<close>

text \<open>
  Decoded documents, fallbacks and parsed configurations are untyped JavaScript values.
  Numbers are integers here (no configuration field the loader inspects is fractional).
\<close>

datatype jsval =
    JUndefined
  | JNull
  | JBool bool
  | JNum int
  | JStr string
  | JArr "jsval list"
  | JObj "(string \<times> jsval) list"

text \<open>The test \<open>!v\<close> of JavaScript is \<open>\<not> truthy v\<close>.\<close>

fun truthy :: "jsval \<Rightarrow> bool" where
  "truthy JUndefined = False"
| "truthy JNull = False"
| "truthy (JBool b) = b"
| "truthy (JNum n) = (n \<noteq> 0)"
| "truthy (JStr s) = (s \<noteq> [])"
| "truthy (JArr xs) = True"
| "truthy (JObj kvs) = True"

text \<open>
  A value thrown by a collaborator (\<open>catch (err: any)\<close>): its message and the three
  properties the loader looks at. A property that is absent is \<open>None\<close>.
\<close>

record JsError =
  message :: string
  line :: "int option"
  pos :: "int option"
  col :: "int option"

text \<open>\<open>err.line && err.pos && err.col\<close>: an absent property and the number 0 are both falsy.\<close>

definition truthyProp :: "int option \<Rightarrow> bool" where
  "truthyProp p = (case p of None \<Rightarrow> False | Some n \<Rightarrow> n \<noteq> 0)"

subsection \<open>Modes, messages, faults\<close>

datatype AppLoaderMode = Strict | Report

text \<open>
  A message is the text of the template; a token (\<open>outputToken.path\<close>,
  \<open>outputToken.yellow\<close>) stands for the text it wraps.
\<close>

type_synonym OutputMessage = string

text \<open>
  What a call can raise: the loader's own \<open>AbortError\<close>, or a value thrown by a
  collaborator and passed on unchanged.
\<close>

datatype fault = AbortError OutputMessage | Thrown JsError

subsection \<open>AppErrors\<close>

text \<open>
  \<open>AppErrors\<close> wraps an object used as a dictionary from paths to messages. The keys are
  file paths, so the object behaves as an insertion-ordered association list:
  assigning to an existing key replaces its message in place.
\<close>

type_synonym AppErrors = "(string \<times> OutputMessage) list"

definition addError :: "string \<Rightarrow> OutputMessage \<Rightarrow> AppErrors \<Rightarrow> AppErrors" where
  "addError path msg errs = AList.update path msg errs"

definition getError :: "AppErrors \<Rightarrow> string \<Rightarrow> OutputMessage option" where
  "getError errs path = map_of errs path"

definition isEmpty :: "AppErrors \<Rightarrow> bool" where
  "isEmpty errs = (length (map fst errs) = 0)"

definition toJSON :: "AppErrors \<Rightarrow> OutputMessage list" where
  "toJSON errs = map snd errs"

subsection \<open>Calls that may raise and that share the error set\<close>

text \<open>
  A call of the loader takes the current error set and gives back a result or a fault,
  together with the error set as the call left it (a raise does not undo earlier writes).
\<close>

type_synonym 'a loader = "AppErrors \<Rightarrow> (fault + 'a) \<times> AppErrors"

definition return :: "'a \<Rightarrow> 'a loader" where
  "return x errs = (Inr x, errs)"

definition throw :: "fault \<Rightarrow> 'a loader" where
  "throw f errs = (Inl f, errs)"

definition bind :: "'a loader \<Rightarrow> ('a \<Rightarrow> 'b loader) \<Rightarrow> 'b loader" where
  "bind m k errs = (case m errs of (Inl f, errs') \<Rightarrow> (Inl f, errs') | (Inr x, errs') \<Rightarrow> k x errs')"

text \<open>A collaborator that may throw and does not touch the error set.\<close>

definition lift :: "JsError + 'a \<Rightarrow> 'a loader" where
  "lift r = (case r of Inl e \<Rightarrow> throw (Thrown e) | Inr x \<Rightarrow> return x)"

subsection \<open>The strict/report policy\<close>

type_synonym 'a AbortOrReport = "OutputMessage \<Rightarrow> 'a \<Rightarrow> string \<Rightarrow> 'a loader"

definition abortOrReport :: "AppLoaderMode \<Rightarrow> 'a AbortOrReport" where
  "abortOrReport mode errorMessage fallback configurationPath =
     (if mode = Strict then throw (AbortError errorMessage)
      else (\<lambda>errs. (Inr fallback, addError configurationPath errorMessage errs)))"

text \<open>\<open>AppConfigurationLoader.abort\<close>: the policy of the root configuration, which always raises.\<close>

definition abort :: "'a AbortOrReport" where
  "abort errorMessage fallback configurationPath = throw (AbortError errorMessage)"

subsection \<open>Data model\<close>

text \<open>
  A schema is used through \<open>safeParse\<close> only: it gives the parsed data, or the issue list,
  taken here in the text form \<open>JSON.stringify(issues, null, 2)\<close> that the loader puts in
  its message.
\<close>

type_synonym schema = "jsval \<Rightarrow> string + jsval"

type_synonym decoder = "string \<Rightarrow> JsError + jsval"

record ExtensionSpecification =
  identifier' :: string
  externalIdentifier :: "string option"
  additionalIdentifiers :: "string list option"
  schema :: schema
  singleEntryPath :: bool

record ExtensionInstance =
  configuration :: jsval
  configurationPath :: string
  entryPath :: "string option"
  directory :: string
  specification' :: ExtensionSpecification

text \<open>The values of the enumeration \<open>WebType\<close> that the loader names.\<close>

definition WebType_Backend :: string where
  "WebType_Backend = ''backend''"

definition WebType_Frontend :: string where
  "WebType_Frontend = ''frontend''"

text \<open>
  A web's processed configuration: its roles, and the other fields of the parsed document
  (without the legacy field \<open>type\<close>).
\<close>

record WebConfiguration =
  roles :: "jsval list"
  others :: "(string \<times> jsval) list"

record Web =
  directory :: string
  configuration :: WebConfiguration
  framework :: "string option"

type_synonym DotEnvFile = "string \<times> (string \<times> string) list"

record App =
  name :: string
  idEnvironmentVariableName :: string
  directory :: string
  packageManager :: string
  configuration :: jsval
  configurationPath :: string
  nodeDependencies :: "(string \<times> string) list"
  webs :: "Web list"
  allExtensions :: "ExtensionInstance list"
  usesWorkspaces :: bool
  dotenv :: "DotEnvFile option"
  errors :: "AppErrors option"

record AppConfigurationInterface =
  appDirectory :: string
  configuration :: jsval
  configurationPath :: string

subsection \<open>Collaborators\<close>

text \<open>
  The functions the loader imports from other packages. \<open>ancestors d\<close> is the chain of
  directories that an upward walk from \<open>d\<close> visits: \<open>d\<close> itself first, the file system
  root last. \<open>validate\<close> is the extension's own validation (\<open>None\<close>: no error).
  \<open>getAppInfo\<close> gives the cached \<open>configFile\<close> of a directory, if any.
  \<open>addMetadata\<close> is the telemetry sink fed by \<open>logMetadataForLoadedApp\<close>.
\<close>

record env =
  fileExists :: "string \<Rightarrow> bool"
  readFile :: "string \<Rightarrow> JsError + string"
  glob :: "string list \<Rightarrow> string list"
  joinPath :: "string list \<Rightarrow> string"
  dirname :: "string \<Rightarrow> string"
  basename :: "string \<Rightarrow> string"
  ancestors :: "string \<Rightarrow> string list"
  decodeToml :: decoder
  isShopify :: bool
  getAppInfo :: "string \<Rightarrow> string option"
  readAndParseDotEnv :: "string \<Rightarrow> JsError + DotEnvFile"
  getPackageName :: "string \<Rightarrow> JsError + string option"
  getDependencies :: "string \<Rightarrow> JsError + (string \<times> string) list"
  getPackageManager :: "string \<Rightarrow> JsError + string"
  appUsesWorkspaces :: "string \<Rightarrow> JsError + bool"
  resolveFramework :: "string \<Rightarrow> JsError + string option"
  validate :: "ExtensionInstance \<Rightarrow> string option"
  AppConfigurationSchema :: schema
  WebConfigurationSchema :: schema
  addMetadata :: "App \<Rightarrow> bool \<Rightarrow> bool \<Rightarrow> JsError + unit"

text \<open>
  Modelled from the spec: constants.ts is missing. The root configuration file is named by a
  fixed prefix and a fixed extension with an optional discriminator between them, and each
  web has its own configuration file; these are the names without a discriminator.
\<close>

definition configurationFileNames_app :: string where
  "configurationFileNames_app = ''shopify.app.toml''"

definition configurationFileNames_web :: string where
  "configurationFileNames_web = ''shopify.web.toml''"

text \<open>
  Modelled from the spec: constants.ts is missing; the production environment-variable file.
\<close>

definition dotEnvFileNames_production :: string where
  "dotEnvFileNames_production = ''.env''"

definition defaultExtensionDirectory :: string where
  "defaultExtensionDirectory = ''extensions/*''"

definition newline :: string where
  "newline = [CHR 0x0A]"

subsection \<open>Reading and parsing one configuration file\<close>

definition loadConfigurationFile ::
  "env \<Rightarrow> string \<Rightarrow> jsval AbortOrReport \<Rightarrow> decoder \<Rightarrow> jsval loader" where
  "loadConfigurationFile E filepath abortOrReport' decode =
     (if \<not> fileExists E filepath then
        abortOrReport' (''Couldn't find the configuration file at '' @ filepath) (JStr []) filepath
      else
        (case (case readFile E filepath of
                 Inl err \<Rightarrow> Inl err
               | Inr configurationContent \<Rightarrow> decode configurationContent) of
           Inr doc \<Rightarrow> return doc
         | Inl err \<Rightarrow>
             if truthyProp (line err) \<and> truthyProp (pos err) \<and> truthyProp (col err) then
               abortOrReport'
                 (''Fix the following error in '' @ filepath @ '':'' @ newline @ message err)
                 JNull filepath
             else throw (Thrown err)))"

definition parseConfigurationFile ::
  "env \<Rightarrow> schema \<Rightarrow> string \<Rightarrow> jsval AbortOrReport \<Rightarrow> decoder \<Rightarrow> jsval loader" where
  "parseConfigurationFile E schema' filepath abortOrReport' decode =
     (let fallbackOutput = JObj [] in
      bind (loadConfigurationFile E filepath abortOrReport' decode) (\<lambda>configurationObject.
        if \<not> truthy configurationObject then return fallbackOutput
        else
          (case schema' configurationObject of
             Inl formattedError \<Rightarrow>
               abortOrReport'
                 (''Fix a schema error in '' @ filepath @ '':'' @ newline @ formattedError)
                 fallbackOutput filepath
           | Inr data \<Rightarrow> return data)))"

subsection \<open>Matching a specification\<close>

definition findSpecificationForType ::
  "ExtensionSpecification list \<Rightarrow> string \<Rightarrow> ExtensionSpecification option" where
  "findSpecificationForType specifications type' =
     List.find
       (\<lambda>spec. identifier' spec = type' \<or> externalIdentifier spec = Some type'
          \<or> (case additionalIdentifiers spec of None \<Rightarrow> False | Some ids \<Rightarrow> type' \<in> set ids))
       specifications"

text \<open>
  Modelled from the spec: schemas.ts is missing. \<open>TypeSchema\<close> is the minimal shape from
  which the declared type is read: an object with a string field \<open>type\<close>. \<open>parse\<close> throws
  on any other document.
\<close>

definition TypeSchema_parse :: "jsval \<Rightarrow> JsError + string" where
  "TypeSchema_parse obj =
     (case obj of
        JObj kvs \<Rightarrow>
          (case map_of kvs ''type'' of
             Some (JStr t) \<Rightarrow> Inr t
           | _ \<Rightarrow> Inl \<lparr>message = ''ZodError'', line = None, pos = None, col = None\<rparr>)
      | _ \<Rightarrow> Inl \<lparr>message = ''ZodError'', line = None, pos = None, col = None\<rparr>)"

definition findSpecificationForConfig ::
  "env \<Rightarrow> ExtensionSpecification list \<Rightarrow> string \<Rightarrow> jsval AbortOrReport
     \<Rightarrow> ExtensionSpecification option loader" where
  "findSpecificationForConfig E specifications configurationPath' abortOrReport' =
     bind (lift (readFile E configurationPath')) (\<lambda>fileContent.
     bind (lift (decodeToml E fileContent)) (\<lambda>obj.
     bind (lift (TypeSchema_parse obj)) (\<lambda>type'.
       case findSpecificationForType specifications type' of
         None \<Rightarrow>
           (let isShopifolk = isShopify E;
                shopifolkMessage =
                  newline @ ''You might need to enable some beta flags on your Organization or App''
            in bind
                 (abortOrReport'
                    (''Unknown extension type '' @ type' @ '' in '' @ configurationPath' @ ''. ''
                       @ (if isShopifolk then shopifolkMessage else []))
                    JUndefined configurationPath')
                 (\<lambda>_. return None))
       | Some spec \<Rightarrow> return (Some spec))))"

subsection \<open>AppLoader\<close>

text \<open>
  \<open>Promise.all(xs.map(f))\<close>: every call is made and the results are collected. The calls are
  taken in list order, and the first fault ends the collection.
\<close>

fun mapAll :: "('a \<Rightarrow> 'b loader) \<Rightarrow> 'a list \<Rightarrow> 'b list loader" where
  "mapAll f [] = return []"
| "mapAll f (x # xs) = bind (f x) (\<lambda>y. bind (mapAll f xs) (\<lambda>ys. return (y # ys)))"

fun forEach :: "('a \<Rightarrow> unit loader) \<Rightarrow> 'a list \<Rightarrow> unit loader" where
  "forEach f [] = return ()"
| "forEach f (x # xs) = bind (f x) (\<lambda>_. forEach f xs)"

text \<open>The first entry of a list of probes that is not \<open>undefined\<close>.\<close>

definition firstDefined :: "string option list \<Rightarrow> string option" where
  "firstDefined probes =
     (case List.find (\<lambda>sourcePath. sourcePath \<noteq> None) probes of
        Some found \<Rightarrow> found
      | None \<Rightarrow> None)"

definition findEntryPath ::
  "env \<Rightarrow> AppLoaderMode \<Rightarrow> string \<Rightarrow> ExtensionSpecification \<Rightarrow> string option loader" where
  "findEntryPath E mode directory' spec =
     (if singleEntryPath spec then
        (let entryPath' =
               firstDefined
                 (map (\<lambda>sourcePath. if fileExists E sourcePath then Some sourcePath else None)
                   (map (\<lambda>relativePath. joinPath E [directory', relativePath])
                     (concat (map (\<lambda>fileName. [''src/'' @ fileName, fileName])
                       (concat (map (\<lambda>name'. [name' @ ''.js'', name' @ ''.jsx'',
                                               name' @ ''.ts'', name' @ ''.tsx''])
                         [''index'']))))))
         in if entryPath' = None \<or> entryPath' = Some [] then
              bind
                (abortOrReport mode
                   (''Couldn't find an index.{js,jsx,ts,tsx} file in the directories ''
                      @ directory' @ '' or '' @ joinPath E [directory', ''src''])
                   JUndefined directory')
                (\<lambda>_. return entryPath')
            else return entryPath')
      else if identifier' spec = ''function'' then
        return
          (firstDefined
             (map (\<lambda>sourcePath. if fileExists E sourcePath then Some sourcePath else None)
               (map (\<lambda>relativePath. joinPath E [directory', relativePath])
                 [''src/index.js'', ''src/index.ts'', ''src/main.rs''])))
      else return None)"

text \<open>
  The body of the callback that \<open>loadExtensions\<close> maps over the configuration paths
  (it has no name in the source).
\<close>

definition loadExtension ::
  "env \<Rightarrow> AppLoaderMode \<Rightarrow> ExtensionSpecification list \<Rightarrow> string
     \<Rightarrow> ExtensionInstance option loader" where
  "loadExtension E mode specifications configurationPath' =
     (let directory' = dirname E configurationPath' in
      bind (findSpecificationForConfig E specifications configurationPath' (abortOrReport mode))
        (\<lambda>found.
          case found of
            None \<Rightarrow> return None
          | Some spec \<Rightarrow>
              bind (parseConfigurationFile E (schema spec) configurationPath'
                      (abortOrReport mode) (decodeToml E)) (\<lambda>configuration'.
              bind (findEntryPath E mode directory' spec) (\<lambda>entryPath'.
                let extensionInstance =
                      \<lparr>ExtensionInstance.configuration = configuration',
                       ExtensionInstance.configurationPath = configurationPath',
                       entryPath = entryPath',
                       ExtensionInstance.directory = directory',
                       specification' = spec\<rparr>
                in bind
                     (case validate E extensionInstance of
                        Some error \<Rightarrow>
                          bind (abortOrReport mode (newline @ error) JUndefined configurationPath')
                            (\<lambda>_. return ())
                      | None \<Rightarrow> return ())
                     (\<lambda>_. return (Some extensionInstance))))))"

text \<open>
  Modelled from the spec: \<open>getArrayRejectingUndefined\<close> (cli-kit) is missing; it discards the
  entries that are \<open>undefined\<close> and keeps the others in order.
\<close>

definition getArrayRejectingUndefined :: "'a option list \<Rightarrow> 'a list" where
  "getArrayRejectingUndefined xs = List.map_filter (\<lambda>x. x) xs"

text \<open>The local \<open>extensionConfigPaths\<close> of \<open>loadExtensions\<close>, after the exclusion is pushed.\<close>

definition extensionConfigPaths :: "env \<Rightarrow> string \<Rightarrow> string list option \<Rightarrow> string list" where
  "extensionConfigPaths E appDirectory' extensionDirectories =
     map (\<lambda>extensionPath. joinPath E [appDirectory', extensionPath, ''*.extension.toml''])
       (case extensionDirectories of
          None \<Rightarrow> [defaultExtensionDirectory]
        | Some dirs \<Rightarrow> dirs)
     @ [''!'' @ joinPath E [appDirectory', ''**/node_modules/**'']]"

definition loadExtensions ::
  "env \<Rightarrow> AppLoaderMode \<Rightarrow> ExtensionSpecification list \<Rightarrow> string \<Rightarrow> string list option
     \<Rightarrow> (ExtensionInstance list \<times> bool) loader" where
  "loadExtensions E mode specifications appDirectory' extensionDirectories =
     (let configPaths = glob E (extensionConfigPaths E appDirectory' extensionDirectories)
      in bind (mapAll (loadExtension E mode specifications) configPaths) (\<lambda>extensions.
           return (getArrayRejectingUndefined extensions, extensionDirectories \<noteq> None)))"

text \<open>
  \<open>new Set(xs)\<close> and \<open>Set.add\<close>: a value is added unless the set holds it already. Values
  are compared as the set does (primitive values by content, arrays and objects by
  identity, so two of them never count as the same entry).
\<close>

fun primitive :: "jsval \<Rightarrow> bool" where
  "primitive (JArr xs) = False"
| "primitive (JObj kvs) = False"
| "primitive v = True"

definition setAdd :: "jsval list \<Rightarrow> jsval \<Rightarrow> jsval list" where
  "setAdd s v = (if primitive v \<and> v \<in> set s then s else s @ [v])"

text \<open>
  The entries that \<open>new Set(v)\<close> iterates over: the elements of an array, the characters of a
  string, nothing for \<open>undefined\<close> and \<open>null\<close>; any other value is not iterable.
\<close>

definition iterate :: "jsval \<Rightarrow> JsError + jsval list" where
  "iterate v =
     (case v of
        JArr xs \<Rightarrow> Inr xs
      | JStr s \<Rightarrow> Inr (map (\<lambda>c. JStr [c]) s)
      | JUndefined \<Rightarrow> Inr []
      | JNull \<Rightarrow> Inr []
      | _ \<Rightarrow> Inl \<lparr>message = ''TypeError'', line = None, pos = None, col = None\<rparr>)"

text \<open>
  The parsed web configuration is typed as an object (the web schema is an object schema,
  and the fallback is the empty object). A value of another kind is outside that type; the
  operator \<open>in\<close> throws on a primitive one, and it is a fault here.
\<close>

definition loadWeb :: "env \<Rightarrow> AppLoaderMode \<Rightarrow> string \<Rightarrow> Web loader" where
  "loadWeb E mode WebConfigurationFile =
     bind (parseConfigurationFile E (WebConfigurationSchema E) WebConfigurationFile
             (abortOrReport mode) (decodeToml E)) (\<lambda>config.
       case config of
         JObj kvs \<Rightarrow>
           bind (lift (iterate (case map_of kvs ''roles'' of Some r \<Rightarrow> r | None \<Rightarrow> JArr [])))
             (\<lambda>entries.
               let roles' = foldl setAdd [] entries;
                   roles' = (case map_of kvs ''type'' of
                               Some t \<Rightarrow> setAdd roles' t
                             | None \<Rightarrow> roles')
               in bind (lift (resolveFramework E (dirname E WebConfigurationFile))) (\<lambda>framework'.
                    return
                      \<lparr>Web.directory = dirname E WebConfigurationFile,
                       Web.configuration =
                         \<lparr>roles = roles',
                          others = AList.delete ''type'' (AList.delete ''roles'' kvs)\<rparr>,
                       framework = framework'\<rparr>))
       | _ \<Rightarrow> throw (Thrown \<lparr>message = ''TypeError'', line = None, pos = None, col = None\<rparr>))"

definition validateWebs :: "env \<Rightarrow> AppLoaderMode \<Rightarrow> Web list \<Rightarrow> unit loader" where
  "validateWebs E mode webs' =
     forEach
       (\<lambda>webType.
          let websOfType = filter (\<lambda>web. JStr webType \<in> set (roles (Web.configuration web))) webs'
          in if length websOfType > 1 then
               bind
                 (abortOrReport mode
                    (''You can only have one web with the '' @ webType @ '' role in your app'')
                    JUndefined
                    (joinPath E [Web.directory (websOfType ! 1), configurationFileNames_web]))
                 (\<lambda>_. return ())
             else return ())
       [WebType_Backend, WebType_Frontend]"

text \<open>The local \<open>webConfigGlobs\<close> of \<open>loadWebs\<close>, after the exclusion is pushed.\<close>

definition webConfigGlobs :: "env \<Rightarrow> string \<Rightarrow> string list option \<Rightarrow> string list" where
  "webConfigGlobs E appDirectory' webDirectories =
     (let defaultWebDirectory = ''**''
      in map (\<lambda>webGlob. joinPath E [appDirectory', webGlob, configurationFileNames_web])
           (case webDirectories of None \<Rightarrow> [defaultWebDirectory] | Some dirs \<Rightarrow> dirs)
         @ [''!'' @ joinPath E [appDirectory', ''**/node_modules/**'']])"

definition loadWebs ::
  "env \<Rightarrow> AppLoaderMode \<Rightarrow> string \<Rightarrow> string list option \<Rightarrow> (Web list \<times> bool) loader" where
  "loadWebs E mode appDirectory' webDirectories =
     (let webTomlPaths = glob E (webConfigGlobs E appDirectory' webDirectories)
      in bind (mapAll (loadWeb E mode) webTomlPaths) (\<lambda>webs'.
         bind (validateWebs E mode webs') (\<lambda>_.
           let webTomlsInStandardLocation =
                 glob E [joinPath E [appDirectory', ''web/**/'' @ configurationFileNames_web]];
               usedCustomLayout =
                 (webDirectories \<noteq> None
                  \<or> length webTomlsInStandardLocation \<noteq> length webTomlPaths)
           in return (webs', usedCustomLayout))))"

definition loadDotEnv :: "env \<Rightarrow> string \<Rightarrow> DotEnvFile option loader" where
  "loadDotEnv E appDirectory' =
     (let dotEnvPath = joinPath E [appDirectory', dotEnvFileNames_production]
      in if fileExists E dotEnvPath then
           bind (lift (readAndParseDotEnv E dotEnvPath)) (\<lambda>dotEnvFile. return (Some dotEnvFile))
         else return None)"

definition loadAppName :: "env \<Rightarrow> string \<Rightarrow> string loader" where
  "loadAppName E appDirectory' =
     (let packageJSONPath = joinPath E [appDirectory', ''package.json'']
      in bind (lift (getPackageName E packageJSONPath)) (\<lambda>packageName.
           return (case packageName of Some n \<Rightarrow> n | None \<Rightarrow> basename E appDirectory')))"

subsection \<open>AppConfigurationLoader\<close>

text \<open>
  Modelled from the spec: \<open>findPathUp\<close> (cli-kit) is missing. It walks upward from the
  starting directory through each ancestor, the start included, calls the predicate on
  each, and stops at the first match or at the file system root.
\<close>

fun firstMatch :: "(string \<Rightarrow> string option) \<Rightarrow> string list \<Rightarrow> string option" where
  "firstMatch matcher [] = None"
| "firstMatch matcher (d # ds) =
     (case matcher d of Some found \<Rightarrow> Some found | None \<Rightarrow> firstMatch matcher ds)"

definition findPathUp :: "env \<Rightarrow> (string \<Rightarrow> string option) \<Rightarrow> string \<Rightarrow> string option" where
  "findPathUp E matcher cwd = firstMatch matcher (ancestors E cwd)"

definition getAppDirectory :: "env \<Rightarrow> string \<Rightarrow> string loader" where
  "getAppDirectory E directory' =
     (if \<not> fileExists E directory' then
        throw (AbortError (''Couldn't find directory '' @ directory'))
      else
        (let found =
               findPathUp E
                 (\<lambda>dir. if length (glob E [joinPath E [dir, ''shopify.app*.toml'']]) > 0
                        then Some dir else None)
                 directory'
         in case found of
              Some appDirectory' \<Rightarrow>
                if appDirectory' \<noteq> [] then return appDirectory'
                else throw (AbortError (''Couldn't find the configuration file for ''
                              @ directory' @ '', are you in an app directory?''))
            | None \<Rightarrow>
                throw (AbortError (''Couldn't find the configuration file for ''
                         @ directory' @ '', are you in an app directory?''))))"

subsection \<open>The name of the root configuration file\<close>

text \<open>
  Regular expressions, with the language they denote and a matcher by derivatives.
  \<open>test\<close> on an expression anchored at both ends asks whether the whole string matches.
\<close>

datatype regex =
    Never
  | Empty
  | Atom "char \<Rightarrow> bool"
  | Alt regex regex
  | Then regex regex
  | Star regex

definition Chr :: "char \<Rightarrow> regex" where
  "Chr c = Atom (\<lambda>d. d = c)"

definition Optional :: "regex \<Rightarrow> regex" where
  "Optional r = Alt r Empty"

definition OneOrMore :: "regex \<Rightarrow> regex" where
  "OneOrMore r = Then r (Star r)"

fun Lit :: "string \<Rightarrow> regex" where
  "Lit [] = Empty"
| "Lit (c # cs) = Then (Chr c) (Lit cs)"

definition conc :: "string set \<Rightarrow> string set \<Rightarrow> string set" where
  "conc A B = {u @ v | u v. u \<in> A \<and> v \<in> B}"

inductive_set star :: "string set \<Rightarrow> string set" for A :: "string set" where
  star_nil: "[] \<in> star A"
| star_app: "u \<in> A \<Longrightarrow> v \<in> star A \<Longrightarrow> u @ v \<in> star A"

fun lang :: "regex \<Rightarrow> string set" where
  "lang Never = {}"
| "lang Empty = {[]}"
| "lang (Atom p) = {[c] | c. p c}"
| "lang (Alt r s) = lang r \<union> lang s"
| "lang (Then r s) = conc (lang r) (lang s)"
| "lang (Star r) = star (lang r)"

fun nullable :: "regex \<Rightarrow> bool" where
  "nullable Never = False"
| "nullable Empty = True"
| "nullable (Atom p) = False"
| "nullable (Alt r s) = (nullable r \<or> nullable s)"
| "nullable (Then r s) = (nullable r \<and> nullable s)"
| "nullable (Star r) = True"

fun deriv :: "char \<Rightarrow> regex \<Rightarrow> regex" where
  "deriv c Never = Never"
| "deriv c Empty = Never"
| "deriv c (Atom p) = (if p c then Empty else Never)"
| "deriv c (Alt r s) = Alt (deriv c r) (deriv c s)"
| "deriv c (Then r s) =
     (if nullable r then Alt (Then (deriv c r) s) (deriv c s) else Then (deriv c r) s)"
| "deriv c (Star r) = Then (deriv c r) (Star r)"

fun matches :: "regex \<Rightarrow> string \<Rightarrow> bool" where
  "matches r [] = nullable r"
| "matches r (c # cs) = matches (deriv c r) cs"

definition test :: "regex \<Rightarrow> string \<Rightarrow> bool" where
  "test r s = matches r s"

text \<open>The class \<open>\w\<close>: ASCII letters, digits and the underscore.\<close>

definition isWordChar :: "char \<Rightarrow> bool" where
  "isWordChar c =
     (let n = (of_char c :: nat)
      in (97 \<le> n \<and> n \<le> 122) \<or> (65 \<le> n \<and> n \<le> 90) \<or> (48 \<le> n \<and> n \<le> 57) \<or> n = 95)"

text \<open>\<^verbatim>\<open>/^shopify\.app(\.[-\w]+)?\.toml$/\<close>\<close>

definition validFileRegex :: regex where
  "validFileRegex =
     Then (Lit ''shopify.app'')
       (Then (Optional (Then (Chr CHR ''.'') (OneOrMore (Atom (\<lambda>c. c = CHR ''-'' \<or> isWordChar c)))))
         (Lit ''.toml''))"

text \<open>The argument is optional; \<open>if (config)\<close> also fails on the empty string.\<close>

definition getAppConfigurationFileName :: "string option \<Rightarrow> string" where
  "getAppConfigurationFileName config =
     (case config of
        None \<Rightarrow> configurationFileNames_app
      | Some c \<Rightarrow>
          if c \<noteq> [] then
            (if test validFileRegex c then c else ''shopify.app.'' @ c @ ''.toml'')
          else configurationFileNames_app)"

subsection \<open>Loading the root configuration and the app\<close>

definition getConfigurationPath :: "env \<Rightarrow> string \<Rightarrow> string option \<Rightarrow> string \<Rightarrow> string loader" where
  "getConfigurationPath E directory' configName appDirectory' =
     (let configurationFileName = getAppConfigurationFileName configName;
          configurationPath' = joinPath E [appDirectory', configurationFileName]
      in if fileExists E configurationPath' then return configurationPath'
         else throw (AbortError (''Couldn't find '' @ configurationFileName @ '' in ''
                       @ directory' @ ''.'')))"

definition configurationLoader_loaded ::
  "env \<Rightarrow> string \<Rightarrow> string option \<Rightarrow> AppConfigurationInterface loader" where
  "configurationLoader_loaded E directory' configName =
     bind (getAppDirectory E directory') (\<lambda>appDirectory'.
       let configName' = (case configName of Some c \<Rightarrow> Some c | None \<Rightarrow> getAppInfo E appDirectory')
       in bind (getConfigurationPath E directory' configName' appDirectory') (\<lambda>configurationPath'.
          bind (parseConfigurationFile E (AppConfigurationSchema E) configurationPath' abort
                  (decodeToml E)) (\<lambda>configuration'.
            return \<lparr>appDirectory = appDirectory',
                    AppConfigurationInterface.configuration = configuration',
                    AppConfigurationInterface.configurationPath = configurationPath'\<rparr>)))"

text \<open>
  The optional fields \<open>extension_directories\<close> and \<open>web_directories\<close> of the root
  configuration, which its schema types as lists of strings.
\<close>

definition directoriesField :: "jsval \<Rightarrow> string \<Rightarrow> string list option" where
  "directoriesField configuration' key =
     (case configuration' of
        JObj kvs \<Rightarrow>
          (case map_of kvs key of
             Some (JArr xs) \<Rightarrow> Some (map (\<lambda>x. case x of JStr s \<Rightarrow> s | _ \<Rightarrow> []) xs)
           | _ \<Rightarrow> None)
      | _ \<Rightarrow> None)"

text \<open>
  \<open>logMetadataForLoadedApp\<close> computes counts, flags and hashes from the finished app and
  hands them to the telemetry sink; it reads the app and writes nothing back.
\<close>

definition logMetadataForLoadedApp :: "env \<Rightarrow> App \<Rightarrow> bool \<Rightarrow> bool \<Rightarrow> unit loader" where
  "logMetadataForLoadedApp E app usedCustomLayoutForWeb usedCustomLayoutForExtensions =
     lift (addMetadata E app usedCustomLayoutForWeb usedCustomLayoutForExtensions)"

text \<open>
  \<open>load\<close>: a new \<open>AppLoader\<close> starts with an empty error set and the mode \<open>strict\<close> unless one
  is given; \<open>loaded\<close> is the run of the loader from the error set it has.
\<close>

definition loaded ::
  "env \<Rightarrow> AppLoaderMode \<Rightarrow> ExtensionSpecification list \<Rightarrow> string \<Rightarrow> string option
     \<Rightarrow> App loader" where
  "loaded E mode specifications directory' configName =
     bind (configurationLoader_loaded E directory' configName) (\<lambda>conf.
     bind (loadDotEnv E (appDirectory conf)) (\<lambda>dotenv'.
     bind (loadExtensions E mode specifications (appDirectory conf)
             (directoriesField (AppConfigurationInterface.configuration conf)
                ''extension_directories'')) (\<lambda>(allExtensions', usedCustomLayout).
     let packageJSONPath = joinPath E [appDirectory conf, ''package.json''] in
     bind (loadAppName E (appDirectory conf)) (\<lambda>name'.
     bind (lift (getDependencies E packageJSONPath)) (\<lambda>nodeDependencies'.
     bind (lift (getPackageManager E (appDirectory conf))) (\<lambda>packageManager'.
     bind (loadWebs E mode (appDirectory conf)
             (directoriesField (AppConfigurationInterface.configuration conf)
                ''web_directories'')) (\<lambda>(webs', usedCustomLayoutForWeb).
     bind (lift (appUsesWorkspaces E (appDirectory conf))) (\<lambda>usesWorkspaces'.
     (\<lambda>errs.
        let appClass =
              \<lparr>name = name',
               idEnvironmentVariableName = ''SHOPIFY_API_KEY'',
               App.directory = appDirectory conf,
               packageManager = packageManager',
               App.configuration = AppConfigurationInterface.configuration conf,
               App.configurationPath = AppConfigurationInterface.configurationPath conf,
               nodeDependencies = nodeDependencies',
               webs = webs',
               allExtensions = allExtensions',
               usesWorkspaces = usesWorkspaces',
               dotenv = dotenv',
               errors = None\<rparr>;
            appClass = (if \<not> isEmpty errs then appClass\<lparr>errors := Some errs\<rparr> else appClass)
        in bind (logMetadataForLoadedApp E appClass usedCustomLayoutForWeb usedCustomLayout)
             (\<lambda>_. return appClass) errs)))))))))"

definition load ::
  "env \<Rightarrow> AppLoaderMode option \<Rightarrow> ExtensionSpecification list \<Rightarrow> string \<Rightarrow> string option
     \<Rightarrow> fault + App" where
  "load E mode specifications directory' configName =
     fst (loaded E (case mode of Some m \<Rightarrow> m | None \<Rightarrow> Strict) specifications directory' configName [])"

subsection \<open>A small environment for concrete runs\<close>

text \<open>
  Paths are joined with a slash and split at the last slash; nothing exists, every read
  fails, every document decodes to the empty table and every schema accepts what it is
  given. Concrete runs override the fields they need.
\<close>

fun joinWithSlash :: "string list \<Rightarrow> string" where
  "joinWithSlash [] = []"
| "joinWithSlash [p] = p"
| "joinWithSlash (p # q # ps) = p @ ''/'' @ joinWithSlash (q # ps)"

definition dirnameOf :: "string \<Rightarrow> string" where
  "dirnameOf p = rev (tl (dropWhile (\<lambda>c. c \<noteq> CHR ''/'') (rev p)))"

definition basenameOf :: "string \<Rightarrow> string" where
  "basenameOf p = rev (takeWhile (\<lambda>c. c \<noteq> CHR ''/'') (rev p))"

definition noSuchFile :: JsError where
  "noSuchFile = \<lparr>message = ''ENOENT'', line = None, pos = None, col = None\<rparr>"

definition baseEnv :: env where
  "baseEnv =
     \<lparr>fileExists = (\<lambda>p. False),
      readFile = (\<lambda>p. Inl noSuchFile),
      glob = (\<lambda>patterns. []),
      joinPath = joinWithSlash,
      dirname = dirnameOf,
      basename = basenameOf,
      ancestors = (\<lambda>d. [d]),
      decodeToml = (\<lambda>content. Inr (JObj [])),
      isShopify = False,
      getAppInfo = (\<lambda>d. None),
      readAndParseDotEnv = (\<lambda>p. Inl noSuchFile),
      getPackageName = (\<lambda>p. Inr None),
      getDependencies = (\<lambda>p. Inr []),
      getPackageManager = (\<lambda>d. Inr ''npm''),
      appUsesWorkspaces = (\<lambda>d. Inr False),
      resolveFramework = (\<lambda>d. Inr None),
      validate = (\<lambda>e. None),
      AppConfigurationSchema = (\<lambda>doc. Inr doc),
      WebConfigurationSchema = (\<lambda>doc. Inr doc),
      addMetadata = (\<lambda>app w e. Inr ())\<rparr>"

text \<open>A specification of an extension kind with a single entry point.\<close>

definition uiSpecification :: ExtensionSpecification where
  "uiSpecification =
     \<lparr>identifier' = ''ui_extension'',
      externalIdentifier = Some ''ui_extension_external'',
      additionalIdentifiers = Some [''checkout_ui_extension''],
      schema = (\<lambda>doc. Inr doc),
      singleEntryPath = True\<rparr>"

text \<open>An app with two webs that both declare the backend role.\<close>

definition twoBackendsEnv :: env where
  "twoBackendsEnv =
     baseEnv\<lparr>fileExists := (\<lambda>p. p = ''/app/a/shopify.web.toml'' \<or> p = ''/app/b/shopify.web.toml''),
             readFile := (\<lambda>p. Inr ''roles = [backend]''),
             decodeToml := (\<lambda>c. Inr (JObj [(''roles'', JArr [JStr ''backend''])])),
             glob := (\<lambda>patterns.
                if patterns = [''/app/**/shopify.web.toml'', ''!/app/**/node_modules/**'']
                then [''/app/a/shopify.web.toml'', ''/app/b/shopify.web.toml''] else [])\<rparr>"

text \<open>The same app, with both webs declaring the backend and the frontend role.\<close>

definition bothRolesEnv :: env where
  "bothRolesEnv =
     twoBackendsEnv\<lparr>decodeToml :=
        (\<lambda>c. Inr (JObj [(''roles'', JArr [JStr ''backend'', JStr ''frontend''])]))\<rparr>"

text \<open>
  An app at \<open>/app\<close> with two extensions: \<open>a\<close> declares a type that no specification knows,
  \<open>b\<close> is a UI extension with the entry point \<open>src/index.tsx\<close>. A file's content is its
  own path, so that the decoder can tell the files apart. The directory \<open>/tmp\<close> exists
  and has no app above it.
\<close>

definition exampleEnv :: env where
  "exampleEnv =
     baseEnv\<lparr>fileExists := (\<lambda>p. p \<in> set [''/app/extensions/b'', ''/app/shopify.app.toml'', ''/tmp'',
                                         ''/app/extensions/a/shopify.extension.toml'',
                                         ''/app/extensions/b/shopify.extension.toml'',
                                         ''/app/extensions/b/src/index.tsx'']),
             readFile := (\<lambda>p. Inr p),
             decodeToml := (\<lambda>c.
                if c = ''/app/extensions/a/shopify.extension.toml''
                then Inr (JObj [(''type'', JStr ''unknown-kind'')])
                else if c = ''/app/extensions/b/shopify.extension.toml''
                then Inr (JObj [(''type'', JStr ''ui_extension'')])
                else Inr (JObj [])),
             ancestors := (\<lambda>d.
                if d = ''/app/extensions/b''
                then [''/app/extensions/b'', ''/app/extensions'', ''/app'', ''/'']
                else if d = ''/tmp'' then [''/tmp'', ''/''] else [d]),
             glob := (\<lambda>patterns.
                if patterns = [''/app/shopify.app*.toml''] then [''/app/shopify.app.toml'']
                else if patterns = [''/app/extensions/*/*.extension.toml'', ''!/app/**/node_modules/**'']
                then [''/app/extensions/a/shopify.extension.toml'',
                      ''/app/extensions/b/shopify.extension.toml'']
                else [])\<rparr>"

subsection \<open>Vocabulary of the proofs\<close>

text \<open>The paths that have a message, and the calls that never remove one.\<close>

definition keysOf :: "AppErrors \<Rightarrow> string set" where
  "keysOf errs = set (map fst errs)"

definition grows :: "'a loader \<Rightarrow> bool" where
  "grows m = (\<forall>errs. keysOf errs \<subseteq> keysOf (snd (m errs)))"

section \<open>Theorems\<close>

subsection \<open>The error set and the policy\<close>

lemma lift_Inl: "lift (Inl e) = throw (Thrown e)"
  by (simp add: lift_def)

lemma lift_Inr: "lift (Inr x) = return x"
  by (simp add: lift_def)

lemma bind_throw: "bind (throw f) k = throw f"
  by (rule ext) (simp add: bind_def throw_def)

lemma bind_return: "bind (return x) k = k x"
  by (rule ext) (simp add: bind_def return_def)

lemma bind_Inr_iff:
  "bind m k errs = (Inr y, errs') \<longleftrightarrow> (\<exists>x e1. m errs = (Inr x, e1) \<and> k x e1 = (Inr y, errs'))"
  by (auto simp: bind_def split: prod.splits sum.splits)

lemma lift_Inr_iff: "lift r errs = (Inr x, errs') \<longleftrightarrow> r = Inr x \<and> errs' = errs"
  by (cases r) (auto simp: lift_def throw_def return_def)

lemma getError_addError_same: "getError (addError p m errs) p = Some m"
  by (simp add: getError_def addError_def update_conv')

lemma getError_addError_other: "q \<noteq> p \<Longrightarrow> getError (addError p m errs) q = getError errs q"
  by (simp add: getError_def addError_def update_conv')

lemma isEmpty_addError: "\<not> isEmpty (addError p m errs)"
  by (cases errs) (simp_all add: isEmpty_def addError_def)

text \<open>
  Claim C2. In strict mode \<open>abortOrReport\<close> raises an \<open>AbortError\<close> carrying the message and
  yields no value (the error set is left as it was). In report mode it returns the fallback,
  and afterwards the error set holds the message under the given path, whatever was stored
  there before, while every other path keeps what it had.
\<close>

theorem abortOrReport_policy:
  "abortOrReport Strict msg fallback path errs = (Inl (AbortError msg), errs)
   \<and> (\<exists>errs'. abortOrReport Report msg fallback path errs = (Inr fallback, errs')
        \<and> getError errs' path = Some msg
        \<and> (\<forall>q. q \<noteq> path \<longrightarrow> getError errs' q = getError errs q))"
  by (simp add: abortOrReport_def throw_def getError_addError_same getError_addError_other)

theorem abortOrReport_policy_witness:
  "abortOrReport Strict ''bad'' JNull ''/app/web/shopify.web.toml'' [(''/app/web/shopify.web.toml'', ''old'')]
     = (Inl (AbortError ''bad''), [(''/app/web/shopify.web.toml'', ''old'')])
   \<and> abortOrReport Report ''bad'' JNull ''/app/web/shopify.web.toml''
        [(''/app/web/shopify.web.toml'', ''old''), (''/app/x'', ''other'')]
     = (Inr JNull, [(''/app/web/shopify.web.toml'', ''bad''), (''/app/x'', ''other'')])
   \<and> getError [(''/app/web/shopify.web.toml'', ''bad''), (''/app/x'', ''other'')] ''/app/x''
     = getError [(''/app/web/shopify.web.toml'', ''old''), (''/app/x'', ''other'')] ''/app/x''"
  using abortOrReport_policy [of "''bad''" JNull "''/app/web/shopify.web.toml''"
      "[(''/app/web/shopify.web.toml'', ''old''), (''/app/x'', ''other'')]"]
  by (simp add: abortOrReport_def throw_def addError_def getError_def)

subsection \<open>Entry-point resolution\<close>

lemma firstDefined_find:
  "firstDefined (map (\<lambda>p. if P p then Some p else None) xs) = List.find P xs"
  by (induction xs) (simp_all add: firstDefined_def)

lemma bind_abortOrReport_const:
  "bind (abortOrReport mode msg fb path) (\<lambda>_. return v) errs = abortOrReport mode msg v path errs"
  by (simp add: bind_def abortOrReport_def throw_def return_def)

text \<open>
  Claim C1, as the code has it. For a specification with a single entry point,
  \<open>findEntryPath\<close> probes eight candidates in the order \<open>src/index.js\<close>, \<open>index.js\<close>,
  \<open>src/index.jsx\<close>, \<open>index.jsx\<close>, \<open>src/index.ts\<close>, \<open>index.ts\<close>, \<open>src/index.tsx\<close>,
  \<open>index.tsx\<close> (each joined to the extension's directory) and returns the first that exists,
  without touching the error set. When none exists the result is that of the policy
  function called with the directory as key: a raise in strict mode, a recorded message
  and no entry path in report mode. In particular, when \<open>index.js\<close> and \<open>src/index.ts\<close>
  exist and \<open>src/index.js\<close> does not, \<open>index.js\<close> is selected.
\<close>

theorem findEntryPath_probe_order:
  assumes "singleEntryPath spec"
  shows "(\<forall>p. List.find (fileExists E)
               (map (\<lambda>r. joinPath E [dir, r])
                  [''src/index.js'', ''index.js'', ''src/index.jsx'', ''index.jsx'',
                   ''src/index.ts'', ''index.ts'', ''src/index.tsx'', ''index.tsx'']) = Some p
             \<and> p \<noteq> []
           \<longrightarrow> findEntryPath E mode dir spec errs = (Inr (Some p), errs))
    \<and> (List.find (fileExists E)
               (map (\<lambda>r. joinPath E [dir, r])
                  [''src/index.js'', ''index.js'', ''src/index.jsx'', ''index.jsx'',
                   ''src/index.ts'', ''index.ts'', ''src/index.tsx'', ''index.tsx'']) = None
           \<longrightarrow> findEntryPath E mode dir spec errs =
                 abortOrReport mode
                   (''Couldn't find an index.{js,jsx,ts,tsx} file in the directories ''
                      @ dir @ '' or '' @ joinPath E [dir, ''src''])
                   None dir errs)
    \<and> (fileExists E (joinPath E [dir, ''index.js'']) \<and> fileExists E (joinPath E [dir, ''src/index.ts''])
         \<and> \<not> fileExists E (joinPath E [dir, ''src/index.js'']) \<and> joinPath E [dir, ''index.js''] \<noteq> []
           \<longrightarrow> findEntryPath E mode dir spec errs = (Inr (Some (joinPath E [dir, ''index.js''])), errs))"
proof -
  let ?cands = "map (\<lambda>r. joinPath E [dir, r])
                  [''src/index.js'', ''index.js'', ''src/index.jsx'', ''index.jsx'',
                   ''src/index.ts'', ''index.ts'', ''src/index.tsx'', ''index.tsx'']"
  let ?msg = "''Couldn't find an index.{js,jsx,ts,tsx} file in the directories ''
                      @ dir @ '' or '' @ joinPath E [dir, ''src'']"
  have run: "findEntryPath E mode dir spec =
      (let entryPath' = List.find (fileExists E) ?cands
       in if entryPath' = None \<or> entryPath' = Some [] then
            bind (abortOrReport mode ?msg JUndefined dir) (\<lambda>_. return entryPath')
          else return entryPath')"
    using assms
    unfolding findEntryPath_def firstDefined_find [of "fileExists E", symmetric]
    by simp
  show ?thesis
    by (simp add: run Let_def bind_abortOrReport_const return_def)
qed

theorem findEntryPath_probe_order_witness:
  "findEntryPath (baseEnv\<lparr>fileExists := (\<lambda>p. p = ''/ext/index.js'' \<or> p = ''/ext/src/index.ts'')\<rparr>)
       Strict ''/ext'' uiSpecification []
     = (Inr (Some ''/ext/index.js''), [])
   \<and> findEntryPath baseEnv Report ''/ext'' uiSpecification []
     = (Inr None, [(''/ext'',
          ''Couldn't find an index.{js,jsx,ts,tsx} file in the directories /ext or /ext/src'')])
   \<and> findEntryPath baseEnv Strict ''/ext'' uiSpecification []
     = (Inl (AbortError
          ''Couldn't find an index.{js,jsx,ts,tsx} file in the directories /ext or /ext/src''), [])"
  using findEntryPath_probe_order
      [of uiSpecification
        "baseEnv\<lparr>fileExists := (\<lambda>p. p = ''/ext/index.js'' \<or> p = ''/ext/src/index.ts'')\<rparr>"
        "''/ext''" Strict "[]"]
    findEntryPath_probe_order [of uiSpecification baseEnv "''/ext''" Report "[]"]
    findEntryPath_probe_order [of uiSpecification baseEnv "''/ext''" Strict "[]"]
  by (simp add: baseEnv_def uiSpecification_def abortOrReport_def throw_def addError_def)

text \<open>
  The order written in the claim (the four top-level names first) is not the order of the
  code: with \<open>index.js\<close> and \<open>src/index.js\<close> both present the loader returns
  \<open>src/index.js\<close>, while the first existing candidate in the claimed order is \<open>index.js\<close>.
\<close>

theorem findEntryPath_documented_order_counterexample:
  "findEntryPath (baseEnv\<lparr>fileExists := (\<lambda>p. p = ''/ext/index.js'' \<or> p = ''/ext/src/index.js'')\<rparr>)
       Report ''/ext'' uiSpecification []
     = (Inr (Some ''/ext/src/index.js''), [])
   \<and> List.find (\<lambda>p. p = ''/ext/index.js'' \<or> p = ''/ext/src/index.js'')
       (map (\<lambda>r. joinWithSlash [''/ext'', r])
          [''index.js'', ''index.jsx'', ''index.ts'', ''index.tsx'',
           ''src/index.js'', ''src/index.jsx'', ''src/index.ts'', ''src/index.tsx''])
     = Some ''/ext/index.js''"
  by (simp add: findEntryPath_def firstDefined_def baseEnv_def uiSpecification_def return_def)

subsection \<open>The name of the root configuration file\<close>

lemma nullable_lang: "nullable r \<longleftrightarrow> [] \<in> lang r"
  by (induction r) (auto simp: conc_def intro: star.intros)

lemma star_cons:
  "c # s \<in> star A \<longleftrightarrow> (\<exists>u v. s = u @ v \<and> c # u \<in> A \<and> v \<in> star A)"
proof
  assume "c # s \<in> star A"
  then show "\<exists>u v. s = u @ v \<and> c # u \<in> A \<and> v \<in> star A"
  proof (induction "c # s" rule: star.induct)
    case (star_app u v)
    then show ?case by (cases u) auto
  qed
next
  assume "\<exists>u v. s = u @ v \<and> c # u \<in> A \<and> v \<in> star A"
  then obtain u v where "s = u @ v" "c # u \<in> A" "v \<in> star A" by blast
  then show "c # s \<in> star A" using star_app [of "c # u" A v] by simp
qed

lemma conc_cons:
  "c # s \<in> conc A B \<longleftrightarrow>
     (\<exists>u v. s = u @ v \<and> c # u \<in> A \<and> v \<in> B) \<or> ([] \<in> A \<and> c # s \<in> B)"
  unfolding conc_def by (auto simp: Cons_eq_append_conv)

lemma deriv_lang: "s \<in> lang (deriv c r) \<longleftrightarrow> c # s \<in> lang r"
proof (induction r arbitrary: s)
  case (Then r1 r2)
  then show ?case
    by (auto simp: conc_cons nullable_lang) (auto simp: conc_def)
next
  case (Star r)
  then show ?case
    by (auto simp: star_cons) (auto simp: conc_def)
qed auto

lemma matches_lang: "matches r s \<longleftrightarrow> s \<in> lang r"
  by (induction s arbitrary: r) (simp_all add: nullable_lang deriv_lang)

lemma concI: "u \<in> A \<Longrightarrow> v \<in> B \<Longrightarrow> u @ v \<in> conc A B"
  by (auto simp: conc_def)

lemma Lit_lang: "s \<in> lang (Lit s)"
  by (induction s) (auto simp: conc_def Chr_def)

lemma OneOrMore_lang:
  "s \<noteq> [] \<Longrightarrow> \<forall>c \<in> set s. p c \<Longrightarrow> s \<in> lang (OneOrMore (Atom p))"
proof (induction s)
  case Nil
  then show ?case by simp
next
  case (Cons c s)
  show ?case
  proof (cases s)
    case Nil
    with Cons.prems show ?thesis
      by (auto simp: OneOrMore_def conc_def intro: star.intros)
  next
    case (Cons d t)
    with Cons.IH Cons.prems have "s \<in> conc {[c] | c. p c} (star {[c] | c. p c})"
      by (simp add: OneOrMore_def)
    then have "s \<in> star {[c] | c. p c}"
      by (auto simp: conc_def intro: star.intros)
    then have "[c] @ s \<in> conc {[c] | c. p c} (star {[c] | c. p c})"
      using Cons.prems by (intro concI) simp_all
    then show ?thesis
      by (simp add: OneOrMore_def)
  qed
qed

lemma named_variant_matches:
  assumes "d \<noteq> []" and "\<forall>c \<in> set d. c = CHR ''-'' \<or> isWordChar c"
  shows "test validFileRegex (''shopify.app.'' @ d @ ''.toml'')"
proof -
  let ?cls = "Atom (\<lambda>c. c = CHR ''-'' \<or> isWordChar c)"
  have "d \<in> lang (OneOrMore ?cls)"
    using assms by (rule OneOrMore_lang)
  then have "[CHR ''.''] @ d \<in> lang (Then (Chr CHR ''.'') (OneOrMore ?cls))"
    unfolding lang.simps by (intro concI) (simp_all add: Chr_def)
  then have "[CHR ''.''] @ d \<in> lang (Optional (Then (Chr CHR ''.'') (OneOrMore ?cls)))"
    by (simp add: Optional_def)
  then have "([CHR ''.''] @ d) @ ''.toml''
      \<in> lang (Then (Optional (Then (Chr CHR ''.'') (OneOrMore ?cls))) (Lit ''.toml''))"
    unfolding lang.simps(5) by (rule concI) (rule Lit_lang)
  then have "''shopify.app'' @ (([CHR ''.''] @ d) @ ''.toml'') \<in> lang validFileRegex"
    unfolding validFileRegex_def lang.simps(5) by (rule concI [OF Lit_lang])
  then show ?thesis
    by (simp add: test_def matches_lang)
qed

text \<open>
  Claim C7. For a name \<open>shopify.app.<d>.toml\<close> whose discriminator \<open>d\<close> is a non-empty
  string of word characters and hyphens, \<open>getAppConfigurationFileName\<close> returns the name
  unchanged, and so applying it to its own result changes nothing.
\<close>

theorem getAppConfigurationFileName_named_variant:
  assumes "d \<noteq> []" and "\<forall>c \<in> set d. c = CHR ''-'' \<or> isWordChar c"
  shows "getAppConfigurationFileName (Some (''shopify.app.'' @ d @ ''.toml''))
           = ''shopify.app.'' @ d @ ''.toml''
    \<and> getAppConfigurationFileName
          (Some (getAppConfigurationFileName (Some (''shopify.app.'' @ d @ ''.toml''))))
        = getAppConfigurationFileName (Some (''shopify.app.'' @ d @ ''.toml''))"
  using named_variant_matches [OF assms] by (simp add: getAppConfigurationFileName_def)

theorem getAppConfigurationFileName_named_variant_witness:
  "''staging-2'' \<noteq> []
   \<and> getAppConfigurationFileName (Some ''shopify.app.staging-2.toml'') = ''shopify.app.staging-2.toml''
   \<and> getAppConfigurationFileName
         (Some (getAppConfigurationFileName (Some ''shopify.app.staging-2.toml'')))
       = getAppConfigurationFileName (Some ''shopify.app.staging-2.toml'')"
  using getAppConfigurationFileName_named_variant [of "''staging-2''"]
  by (simp add: isWordChar_def)

subsection \<open>Reading and parsing one configuration file\<close>

lemma loadConfigurationFile_missing:
  "\<not> fileExists E filepath \<Longrightarrow>
   loadConfigurationFile E filepath policy decode
     = policy (''Couldn't find the configuration file at '' @ filepath) (JStr []) filepath"
  by (simp add: loadConfigurationFile_def)

lemma loadConfigurationFile_decoded:
  "fileExists E filepath \<Longrightarrow> readFile E filepath = Inr content \<Longrightarrow> decode content = Inr doc \<Longrightarrow>
   loadConfigurationFile E filepath policy decode = return doc"
  by (simp add: loadConfigurationFile_def)

text \<open>
  What \<open>loadConfigurationFile\<close> does with a decode failure: it goes to the policy function
  when \<open>line\<close>, \<open>pos\<close> and \<open>col\<close> of the error are all truthy, and is thrown again otherwise.
\<close>

lemma loadConfigurationFile_decode_failure:
  "fileExists E filepath \<Longrightarrow> readFile E filepath = Inr content \<Longrightarrow> decode content = Inl err \<Longrightarrow>
   loadConfigurationFile E filepath policy decode =
     (if truthyProp (line err) \<and> truthyProp (pos err) \<and> truthyProp (col err)
      then policy (''Fix the following error in '' @ filepath @ '':'' @ newline @ message err)
             JNull filepath
      else throw (Thrown err))"
  by (simp add: loadConfigurationFile_def)

text \<open>
  Claim C5, at an input where the code departs from it. The decoder fails on the first line
  of the file with an error that carries \<open>line = 0\<close>, \<open>col = 9\<close> and \<open>pos = 9\<close>. The
  error has its position, yet the test \<open>err.line && err.pos && err.col\<close> is false on the
  line number 0: in report mode nothing is recorded and the error is thrown to the caller.
\<close>

theorem loadConfigurationFile_first_line_error:
  "loadConfigurationFile
     (baseEnv\<lparr>fileExists := (\<lambda>p. p = ''/app/web/shopify.web.toml''),
              readFile := (\<lambda>p. Inr ''roles = ['')\<rparr>)
     ''/app/web/shopify.web.toml'' (abortOrReport Report)
     (\<lambda>content. Inl \<lparr>message = ''Unterminated array'', line = Some 0, pos = Some 9, col = Some 9\<rparr>)
     []
   = (Inl (Thrown \<lparr>message = ''Unterminated array'', line = Some 0, pos = Some 9, col = Some 9\<rparr>), [])"
  by (simp add: loadConfigurationFile_def baseEnv_def truthyProp_def throw_def)

text \<open>
  The fallbacks of report mode. A missing file, and a decode failure that goes to the policy
  function, record a message under the file's path and make \<open>parseConfigurationFile\<close>
  return the empty object. Whenever the loaded document is falsy the result is the empty
  object, whatever the schema is: the schema is not consulted.
\<close>

lemma parseConfigurationFile_report_fallback:
  "(\<not> fileExists E filepath \<longrightarrow>
      parseConfigurationFile E sch filepath (abortOrReport Report) decode errs
        = (Inr (JObj []),
           addError filepath (''Couldn't find the configuration file at '' @ filepath) errs))
   \<and> (fileExists E filepath \<and> readFile E filepath = Inr content \<and> decode content = Inl err
        \<and> truthyProp (line err) \<and> truthyProp (pos err) \<and> truthyProp (col err) \<longrightarrow>
      parseConfigurationFile E sch filepath (abortOrReport Report) decode errs
        = (Inr (JObj []),
           addError filepath
             (''Fix the following error in '' @ filepath @ '':'' @ newline @ message err) errs))
   \<and> (\<forall>doc errs'. loadConfigurationFile E filepath policy decode errs = (Inr doc, errs')
          \<and> \<not> truthy doc \<longrightarrow>
        parseConfigurationFile E sch filepath policy decode errs = (Inr (JObj []), errs'))"
  by (simp add: parseConfigurationFile_def loadConfigurationFile_def Let_def bind_def return_def
      abortOrReport_def)

lemma parseConfigurationFile_report_result:
  assumes "parseConfigurationFile E sch filepath (abortOrReport Report) decode errs = (Inr v, errs')"
  shows "v = JObj [] \<or> (\<exists>doc. truthy doc \<and> sch doc = Inr v)"
  using assms
  by (auto simp: parseConfigurationFile_def Let_def bind_Inr_iff return_def abortOrReport_def
      split: if_splits sum.splits)

text \<open>
  Claim C9, at the input of C5. In report mode, on a file whose content fails to decode
  with an error that carries \<open>line = 0\<close>, \<open>parseConfigurationFile\<close> does not return the
  empty object: it raises, and records nothing.
\<close>

theorem parseConfigurationFile_first_line_error:
  "parseConfigurationFile
     (baseEnv\<lparr>fileExists := (\<lambda>p. p = ''/app/web/shopify.web.toml''),
              readFile := (\<lambda>p. Inr ''roles = ['')\<rparr>)
     (\<lambda>doc. Inr doc) ''/app/web/shopify.web.toml'' (abortOrReport Report)
     (\<lambda>content. Inl \<lparr>message = ''Unterminated array'', line = Some 0, pos = Some 9, col = Some 9\<rparr>)
     []
   = (Inl (Thrown \<lparr>message = ''Unterminated array'', line = Some 0, pos = Some 9, col = Some 9\<rparr>), [])"
  by (simp add: parseConfigurationFile_def loadConfigurationFile_def baseEnv_def truthyProp_def
      bind_throw throw_def)

subsection \<open>Matching a specification\<close>

lemma TypeSchema_parse_fails:
  "(\<exists>e. TypeSchema_parse obj = Inl e)
     \<longleftrightarrow> \<not> (\<exists>kvs t. obj = JObj kvs \<and> map_of kvs ''type'' = Some (JStr t))"
  by (auto simp: TypeSchema_parse_def split: jsval.splits option.splits)

text \<open>
  Claim C8. When the content of an extension's configuration file fails to decode, or
  decodes to a document that the minimal shape \<open>TypeSchema\<close> rejects,
  \<open>findSpecificationForConfig\<close> raises the error as it is and leaves the error set
  untouched, whatever policy function it was given: the policy (strict or report) is not
  consulted, and nothing is recorded.
\<close>

theorem findSpecificationForConfig_raises_before_policy:
  "(readFile E path = Inr content \<and> decodeToml E content = Inl err
      \<longrightarrow> findSpecificationForConfig E specs path policy errs = (Inl (Thrown err), errs))
   \<and> (readFile E path = Inr content \<and> decodeToml E content = Inr obj \<and> TypeSchema_parse obj = Inl err
      \<longrightarrow> findSpecificationForConfig E specs path policy errs = (Inl (Thrown err), errs))"
  by (simp add: findSpecificationForConfig_def lift_Inl lift_Inr bind_throw bind_return throw_def)

theorem findSpecificationForConfig_raises_before_policy_witness:
  "findSpecificationForConfig
      (baseEnv\<lparr>readFile := (\<lambda>p. Inr ''name = 1''),
               decodeToml := (\<lambda>c. Inl \<lparr>message = ''bad'', line = Some 3, pos = Some 20, col = Some 5\<rparr>)\<rparr>)
      [uiSpecification] ''/app/extensions/a/shopify.extension.toml'' (abortOrReport Report) []
     = (Inl (Thrown \<lparr>message = ''bad'', line = Some 3, pos = Some 20, col = Some 5\<rparr>), [])
   \<and> findSpecificationForConfig
      (baseEnv\<lparr>readFile := (\<lambda>p. Inr ''name = 1''),
               decodeToml := (\<lambda>c. Inr (JObj [(''name'', JNum 1)]))\<rparr>)
      [uiSpecification] ''/app/extensions/a/shopify.extension.toml'' (abortOrReport Report) []
     = (Inl (Thrown \<lparr>message = ''ZodError'', line = None, pos = None, col = None\<rparr>), [])"
  using findSpecificationForConfig_raises_before_policy
      [where E = "baseEnv\<lparr>readFile := (\<lambda>p. Inr ''name = 1''),
               decodeToml := (\<lambda>c. Inl \<lparr>message = ''bad'', line = Some 3, pos = Some 20, col = Some 5\<rparr>)\<rparr>"
          and path = "''/app/extensions/a/shopify.extension.toml''" and content = "''name = 1''"
          and err = "\<lparr>message = ''bad'', line = Some 3, pos = Some 20, col = Some 5\<rparr>"
          and specs = "[uiSpecification]" and policy = "abortOrReport Report" and errs = "[]"]
    findSpecificationForConfig_raises_before_policy
      [where E = "baseEnv\<lparr>readFile := (\<lambda>p. Inr ''name = 1''),
               decodeToml := (\<lambda>c. Inr (JObj [(''name'', JNum 1)]))\<rparr>"
          and path = "''/app/extensions/a/shopify.extension.toml''" and content = "''name = 1''"
          and obj = "JObj [(''name'', JNum 1)]"
          and err = "\<lparr>message = ''ZodError'', line = None, pos = None, col = None\<rparr>"
          and specs = "[uiSpecification]" and policy = "abortOrReport Report" and errs = "[]"]
  by (simp add: baseEnv_def TypeSchema_parse_def)

subsection \<open>Webs\<close>

text \<open>The defining equations used to run the loader on a concrete environment.\<close>

lemmas run_defs =
  baseEnv_def uiSpecification_def extensionConfigPaths_def
  defaultExtensionDirectory_def TypeSchema_parse_def loadExtensions_def loadExtension_def
  findSpecificationForConfig_def findSpecificationForType_def parseConfigurationFile_def
  loadConfigurationFile_def findEntryPath_def firstDefined_def getArrayRejectingUndefined_def
  map_filter_def bind_def return_def lift_def throw_def abortOrReport_def addError_def
  getError_def dirnameOf_def basenameOf_def newline_def Let_def
  loaded_def configurationLoader_loaded_def getAppDirectory_def findPathUp_def
  getConfigurationPath_def getAppConfigurationFileName_def configurationFileNames_app_def
  configurationFileNames_web_def abort_def directoriesField_def loadDotEnv_def
  dotEnvFileNames_production_def loadAppName_def loadWebs_def webConfigGlobs_def
  validateWebs_def loadWeb_def iterate_def setAdd_def logMetadataForLoadedApp_def isEmpty_def
  WebType_Backend_def WebType_Frontend_def

lemma validateWebs_unfold:
  "validateWebs E mode ws =
     bind (let websOfType = filter (\<lambda>web. JStr WebType_Backend \<in> set (roles (Web.configuration web))) ws
           in if length websOfType > 1 then
                abortOrReport mode
                  (''You can only have one web with the '' @ WebType_Backend @ '' role in your app'')
                  () (joinPath E [Web.directory (websOfType ! 1), configurationFileNames_web])
              else return ())
       (\<lambda>_. let websOfType = filter (\<lambda>web. JStr WebType_Frontend \<in> set (roles (Web.configuration web))) ws
           in if length websOfType > 1 then
                abortOrReport mode
                  (''You can only have one web with the '' @ WebType_Frontend @ '' role in your app'')
                  () (joinPath E [Web.directory (websOfType ! 1), configurationFileNames_web])
              else return ())"
  apply (rule ext)
  apply (simp add: validateWebs_def Let_def bind_def return_def abortOrReport_def throw_def
      split: prod.splits sum.splits)
  done

text \<open>
  Claim C3, as the code has it. Let \<open>ws\<close> be the webs that \<open>loadWebs\<close> resolved and let
  two or more of them declare the backend role. In strict mode \<open>loadWebs\<close> raises the
  backend conflict. In report mode it returns every web of \<open>ws\<close>, and validation writes the
  backend conflict once, under the configuration-file path of the second backend web; no
  other path receives that message. The message is the one found under that path
  afterwards unless two or more webs also declare the frontend role and the second of them
  has the same configuration-file path: the frontend conflict is written after the backend
  one, and a path keeps the last message written under it.
\<close>

theorem loadWebs_backend_conflict:
  assumes resolved: "mapAll (loadWeb E mode) (glob E (webConfigGlobs E appDir dirs)) errs0 = (Inr ws, errs1)"
    and two: "length (filter (\<lambda>web. JStr WebType_Backend \<in> set (roles (Web.configuration web))) ws) > 1"
  shows "(mode = Strict \<longrightarrow>
            loadWebs E mode appDir dirs errs0
              = (Inl (AbortError ''You can only have one web with the backend role in your app''), errs1))
    \<and> (mode = Report \<longrightarrow>
          (let backends = filter (\<lambda>web. JStr WebType_Backend \<in> set (roles (Web.configuration web))) ws;
               frontends = filter (\<lambda>web. JStr WebType_Frontend \<in> set (roles (Web.configuration web))) ws;
               backendPath = joinPath E [Web.directory (backends ! 1), configurationFileNames_web];
               frontendPath = joinPath E [Web.directory (frontends ! 1), configurationFileNames_web];
               backendMessage = ''You can only have one web with the backend role in your app'';
               frontendMessage = ''You can only have one web with the frontend role in your app''
           in \<exists>usedCustomLayout errs2.
                loadWebs E mode appDir dirs errs0 = (Inr (ws, usedCustomLayout), errs2)
                \<and> errs2 =
                    (if length frontends > 1
                     then addError frontendPath frontendMessage (addError backendPath backendMessage errs1)
                     else addError backendPath backendMessage errs1)
                \<and> (length frontends \<le> 1 \<or> frontendPath \<noteq> backendPath
                      \<longrightarrow> getError errs2 backendPath = Some backendMessage)
                \<and> (\<forall>p. p \<noteq> backendPath \<and> getError errs2 p = Some backendMessage
                      \<longrightarrow> getError errs1 p = Some backendMessage)))"
proof -
  let ?backends = "filter (\<lambda>web. JStr WebType_Backend \<in> set (roles (Web.configuration web))) ws"
  let ?frontends = "filter (\<lambda>web. JStr WebType_Frontend \<in> set (roles (Web.configuration web))) ws"
  let ?bp = "joinPath E [Web.directory (?backends ! 1), configurationFileNames_web]"
  let ?fp = "joinPath E [Web.directory (?frontends ! 1), configurationFileNames_web]"
  let ?bm = "''You can only have one web with the backend role in your app''"
  let ?fm = "''You can only have one web with the frontend role in your app''"
  let ?final = "if length ?frontends > 1 then addError ?fp ?fm (addError ?bp ?bm errs1)
                else addError ?bp ?bm errs1"
  have run: "loadWebs E mode appDir dirs errs0 =
      bind (validateWebs E mode ws) (\<lambda>_.
        return (ws, dirs \<noteq> None
                  \<or> length (glob E [joinPath E [appDir, ''web/**/'' @ configurationFileNames_web]])
                      \<noteq> length (glob E (webConfigGlobs E appDir dirs)))) errs1"
    using resolved by (simp add: loadWebs_def Let_def bind_def)
  have strict: "mode = Strict \<Longrightarrow> loadWebs E mode appDir dirs errs0 = (Inl (AbortError ?bm), errs1)"
    using two run
    by (simp add: validateWebs_unfold Let_def bind_def return_def abortOrReport_def throw_def
        WebType_Backend_def WebType_Frontend_def)
  have report: "mode = Report \<Longrightarrow>
      \<exists>usedCustomLayout. loadWebs E mode appDir dirs errs0 = (Inr (ws, usedCustomLayout), ?final)"
    using two run
    by (simp add: validateWebs_unfold Let_def bind_def return_def abortOrReport_def throw_def
        WebType_Backend_def WebType_Frontend_def)
  have kept: "getError ?final ?bp = Some ?bm" if "length ?frontends \<le> 1 \<or> ?fp \<noteq> ?bp"
    using that by (auto simp: getError_addError_same getError_addError_other)
  have only: "getError errs1 p = Some ?bm" if "p \<noteq> ?bp" "getError ?final p = Some ?bm" for p
  proof (cases "length ?frontends > 1 \<and> p = ?fp")
    case True
    with that(2) have "Some ?fm = Some ?bm"
      by (simp add: getError_addError_same)
    then show ?thesis by simp
  next
    case False
    with that show ?thesis
      by (auto simp: getError_addError_other split: if_splits)
  qed
  show ?thesis
  proof (intro conjI impI)
    assume "mode = Strict"
    then show "loadWebs E mode appDir dirs errs0 = (Inl (AbortError ?bm), errs1)"
      by (rule strict)
  next
    assume "mode = Report"
    from report [OF this] obtain used where
      "loadWebs E mode appDir dirs errs0 = (Inr (ws, used), ?final)" ..
    with kept only show "let backends = ?backends; frontends = ?frontends;
               backendPath = joinPath E [Web.directory (backends ! 1), configurationFileNames_web];
               frontendPath = joinPath E [Web.directory (frontends ! 1), configurationFileNames_web];
               backendMessage = ?bm; frontendMessage = ?fm
           in \<exists>usedCustomLayout errs2.
                loadWebs E mode appDir dirs errs0 = (Inr (ws, usedCustomLayout), errs2)
                \<and> errs2 =
                    (if length frontends > 1
                     then addError frontendPath frontendMessage (addError backendPath backendMessage errs1)
                     else addError backendPath backendMessage errs1)
                \<and> (length frontends \<le> 1 \<or> frontendPath \<noteq> backendPath
                      \<longrightarrow> getError errs2 backendPath = Some backendMessage)
                \<and> (\<forall>p. p \<noteq> backendPath \<and> getError errs2 p = Some backendMessage
                      \<longrightarrow> getError errs1 p = Some backendMessage)"
      unfolding Let_def by blast
  qed
qed

lemma twoBackends_resolved:
  "mapAll (loadWeb twoBackendsEnv mode) (glob twoBackendsEnv (webConfigGlobs twoBackendsEnv ''/app'' None)) []
   = (Inr [\<lparr>Web.directory = ''/app/a'',
            Web.configuration = \<lparr>roles = [JStr ''backend''], others = []\<rparr>, framework = None\<rparr>,
           \<lparr>Web.directory = ''/app/b'',
            Web.configuration = \<lparr>roles = [JStr ''backend''], others = []\<rparr>, framework = None\<rparr>], [])"
  by (simp add: twoBackendsEnv_def run_defs)

theorem loadWebs_backend_conflict_witness:
  "loadWebs twoBackendsEnv Strict ''/app'' None []
     = (Inl (AbortError ''You can only have one web with the backend role in your app''), [])
   \<and> loadWebs twoBackendsEnv Report ''/app'' None []
     = (Inr ([\<lparr>Web.directory = ''/app/a'',
            Web.configuration = \<lparr>roles = [JStr ''backend''], others = []\<rparr>, framework = None\<rparr>,
           \<lparr>Web.directory = ''/app/b'',
            Web.configuration = \<lparr>roles = [JStr ''backend''], others = []\<rparr>, framework = None\<rparr>], True),
        [(''/app/b/shopify.web.toml'', ''You can only have one web with the backend role in your app'')])
   \<and> getError (snd (loadWebs twoBackendsEnv Report ''/app'' None [])) ''/app/b/shopify.web.toml''
     = Some ''You can only have one web with the backend role in your app''
   \<and> getError (snd (loadWebs twoBackendsEnv Report ''/app'' None [])) ''/app/a/shopify.web.toml''
     = None"
  using loadWebs_backend_conflict [OF twoBackends_resolved [of Strict]]
    loadWebs_backend_conflict [OF twoBackends_resolved [of Report]]
  by (simp add: twoBackendsEnv_def run_defs)

text \<open>
  The claim as written (the backend diagnostic is recorded under the path of the second
  backend web, for every list with two or more backend webs) fails when both webs declare
  both roles: all webs are returned, but the only message left is the frontend conflict,
  under the very path where the backend conflict was written.
\<close>

theorem loadWebs_backend_conflict_counterexample:
  "loadWebs bothRolesEnv Report ''/app'' None []
     = (Inr ([\<lparr>Web.directory = ''/app/a'',
            Web.configuration = \<lparr>roles = [JStr ''backend'', JStr ''frontend''], others = []\<rparr>,
            framework = None\<rparr>,
           \<lparr>Web.directory = ''/app/b'',
            Web.configuration = \<lparr>roles = [JStr ''backend'', JStr ''frontend''], others = []\<rparr>,
            framework = None\<rparr>], True),
        [(''/app/b/shopify.web.toml'', ''You can only have one web with the frontend role in your app'')])
   \<and> getError (snd (loadWebs bothRolesEnv Report ''/app'' None [])) ''/app/b/shopify.web.toml''
     \<noteq> Some ''You can only have one web with the backend role in your app''
   \<and> ''You can only have one web with the backend role in your app''
     \<notin> set (toJSON (snd (loadWebs bothRolesEnv Report ''/app'' None [])))"
  by (simp add: bothRolesEnv_def twoBackendsEnv_def toJSON_def run_defs)

subsection \<open>Calls that only add to the error set\<close>

lemma keysOf_addError: "keysOf (addError p m errs) = insert p (keysOf errs)"
  by (auto simp: keysOf_def addError_def update_keys dom_map_of_conv_image_fst [symmetric])

lemma getError_keysOf: "getError errs p \<noteq> None \<longleftrightarrow> p \<in> keysOf errs"
  by (simp add: getError_def keysOf_def map_of_eq_None_iff)

lemma grows_return: "grows (return x)"
  by (simp add: grows_def return_def)

lemma grows_throw: "grows (throw f)"
  by (simp add: grows_def throw_def)

lemma grows_lift: "grows (lift r)"
  by (cases r) (simp_all add: lift_def grows_return grows_throw)

lemma grows_abortOrReport: "grows (abortOrReport mode msg fb path)"
  by (auto simp: grows_def abortOrReport_def throw_def keysOf_addError)

lemma grows_bind: "grows m \<Longrightarrow> (\<And>x. grows (k x)) \<Longrightarrow> grows (bind m k)"
  unfolding grows_def bind_def
proof (intro allI)
  fix errs
  assume m: "\<forall>errs. keysOf errs \<subseteq> keysOf (snd (m errs))"
    and k: "\<And>x. \<forall>errs. keysOf errs \<subseteq> keysOf (snd (k x errs))"
  obtain r e1 where r: "m errs = (r, e1)" by (cases "m errs")
  from m r have le: "keysOf errs \<subseteq> keysOf e1"
    by (metis snd_conv)
  show "keysOf errs \<subseteq> keysOf (snd (case m errs of (Inl f, errs') \<Rightarrow> (Inl f, errs')
                                      | (Inr x, errs') \<Rightarrow> k x errs'))"
  proof (cases r)
    case (Inl f)
    with r le show ?thesis by simp
  next
    case (Inr x)
    with r le k [of x] show ?thesis by (simp; blast)
  qed
qed

lemma grows_mapAll: "(\<And>x. grows (f x)) \<Longrightarrow> grows (mapAll f xs)"
  by (induction xs) (simp_all add: grows_return grows_bind)

lemma grows_loadConfigurationFile:
  "grows (loadConfigurationFile E filepath (abortOrReport mode) decode)"
  by (simp add: loadConfigurationFile_def grows_abortOrReport grows_return grows_throw
      split: sum.splits)

lemma grows_parseConfigurationFile:
  "grows (parseConfigurationFile E sch filepath (abortOrReport mode) decode)"
  unfolding parseConfigurationFile_def Let_def
  by (intro grows_bind grows_loadConfigurationFile)
    (simp add: grows_abortOrReport grows_return split: sum.splits)

lemma grows_findSpecificationForConfig:
  "grows (findSpecificationForConfig E specs path (abortOrReport mode))"
  unfolding findSpecificationForConfig_def Let_def
  by (intro grows_bind grows_lift)
    (simp add: grows_bind grows_abortOrReport grows_return split: option.splits)

lemma grows_findEntryPath: "grows (findEntryPath E mode dir spec)"
  unfolding findEntryPath_def Let_def
  by (simp add: grows_bind grows_abortOrReport grows_return)

lemma grows_loadExtension: "grows (loadExtension E mode specs path)"
  unfolding loadExtension_def Let_def
  by (intro grows_bind grows_findSpecificationForConfig)
    (auto intro!: grows_bind grows_parseConfigurationFile grows_findEntryPath grows_return
        grows_abortOrReport split: option.splits)

lemma mapAll_Cons_Inr:
  "mapAll f (x # xs) errs = (Inr zs, errs') \<longleftrightarrow>
     (\<exists>y ys e1. f x errs = (Inr y, e1) \<and> mapAll f xs e1 = (Inr ys, errs') \<and> zs = y # ys)"
  by (auto simp: bind_def return_def split: prod.splits sum.splits)

lemma mapAll_elem:
  assumes "mapAll f xs errs = (Inr ys, errs')" and "\<And>x. grows (f x)" and "x \<in> set xs"
  shows "\<exists>e1 e2 y. f x e1 = (Inr y, e2) \<and> keysOf e2 \<subseteq> keysOf errs'"
  using assms(1,3)
proof (induction xs arbitrary: errs ys)
  case Nil
  then show ?case by simp
next
  case (Cons a xs)
  from Cons.prems(1) obtain y zs e1 where
    a: "f a errs = (Inr y, e1)" and rest: "mapAll f xs e1 = (Inr zs, errs')"
    unfolding mapAll_Cons_Inr by blast
  show ?case
  proof (cases "x = a")
    case True
    have "grows (mapAll f xs)" by (rule grows_mapAll) (rule assms(2))
    then have "keysOf e1 \<subseteq> keysOf errs'"
      using rest unfolding grows_def by (metis snd_conv)
    with a True show ?thesis by blast
  next
    case False
    with Cons.prems(2) have "x \<in> set xs" by simp
    from Cons.IH [OF rest this] show ?thesis .
  qed
qed

lemma mapAll_results:
  assumes "mapAll f xs errs = (Inr ys, errs')" and "y \<in> set ys"
  shows "\<exists>x \<in> set xs. \<exists>e1 e2. f x e1 = (Inr y, e2)"
  using assms
proof (induction xs arbitrary: errs ys)
  case Nil
  then show ?case by (simp add: return_def)
next
  case (Cons a xs)
  from Cons.prems(1) obtain z zs e1 where
    a: "f a errs = (Inr z, e1)" and rest: "mapAll f xs e1 = (Inr zs, errs')" and ys: "ys = z # zs"
    unfolding mapAll_Cons_Inr by blast
  show ?case
  proof (cases "y = z")
    case True
    with a show ?thesis by auto
  next
    case False
    with Cons.prems(2) ys have "y \<in> set zs" by simp
    from Cons.IH [OF rest this] show ?thesis by auto
  qed
qed

lemma mapAll_fault:
  assumes "x \<in> set xs" and "\<And>e. \<exists>fl e'. f x e = (Inl fl, e')"
  shows "\<exists>fl e'. mapAll f xs errs = (Inl fl, e')"
  using assms(1)
proof (induction xs arbitrary: errs)
  case Nil
  then show ?case by simp
next
  case (Cons a xs)
  obtain r e1 where r: "f a errs = (r, e1)" by (cases "f a errs")
  show ?case
  proof (cases r)
    case (Inl fl)
    with r show ?thesis by (simp add: bind_def)
  next
    case (Inr y)
    with r assms(2) [of errs] have "x \<noteq> a" by auto
    with Cons.prems have "x \<in> set xs" by simp
    from Cons.IH [OF this, of e1] obtain fl e' where "mapAll f xs e1 = (Inl fl, e')" by blast
    with r Inr show ?thesis by (simp add: bind_def)
  qed
qed

subsection \<open>Extensions of an unknown type\<close>

lemma findSpecificationForType_None:
  assumes "\<forall>s \<in> set specs. identifier' s \<noteq> t \<and> externalIdentifier s \<noteq> Some t
             \<and> (\<forall>ids. additionalIdentifiers s = Some ids \<longrightarrow> t \<notin> set ids)"
  shows "findSpecificationForType specs t = None"
  using assms
  by (auto simp: findSpecificationForType_def find_None_iff split: option.splits)

lemma loadExtension_unknown_type:
  assumes "readFile E path = Inr content" and "decodeToml E content = Inr obj"
    and "TypeSchema_parse obj = Inr t" and "findSpecificationForType specs t = None"
  shows "loadExtension E mode specs path =
           abortOrReport mode
             (''Unknown extension type '' @ t @ '' in '' @ path @ ''. ''
                @ (if isShopify E
                   then newline @ ''You might need to enable some beta flags on your Organization or App''
                   else []))
             None path"
  using assms
  by (intro ext)
    (simp add: loadExtension_def findSpecificationForConfig_def lift_Inr bind_return Let_def
      bind_def abortOrReport_def throw_def return_def)

lemma loadExtension_instance_path:
  assumes "loadExtension E mode specs path e1 = (Inr (Some inst), e2)"
  shows "ExtensionInstance.configurationPath inst = path"
  using assms
  by (auto simp: loadExtension_def Let_def bind_def return_def
      split: prod.splits sum.splits option.splits)

text \<open>
  Claim C4. Let an extension configuration file be among those that \<open>loadExtensions\<close>
  discovers, and let its declared type be neither the identifier, nor the external
  identifier, nor one of the additional identifiers of any specification. Whenever
  \<open>loadExtensions\<close> returns in report mode, no returned extension has that file as its
  configuration path, and the file's path has a message in the resulting error set. In
  strict mode \<open>loadExtensions\<close> raises and returns nothing.
\<close>

theorem loadExtensions_unknown_type:
  assumes found: "path \<in> set (glob E (extensionConfigPaths E appDir dirs))"
    and content: "readFile E path = Inr content"
    and decoded: "decodeToml E content = Inr obj"
    and declared: "TypeSchema_parse obj = Inr t"
    and unknown: "\<forall>s \<in> set specs. identifier' s \<noteq> t \<and> externalIdentifier s \<noteq> Some t
             \<and> (\<forall>ids. additionalIdentifiers s = Some ids \<longrightarrow> t \<notin> set ids)"
  shows "(\<forall>exts used errs'.
            loadExtensions E Report specs appDir dirs errs = (Inr (exts, used), errs')
            \<longrightarrow> path \<notin> ExtensionInstance.configurationPath ` set exts
                \<and> getError errs' path \<noteq> None)
    \<and> (\<exists>f errs'. loadExtensions E Strict specs appDir dirs errs = (Inl f, errs'))"
proof (intro conjI allI impI)
  note none = findSpecificationForType_None [OF unknown]
  note step = loadExtension_unknown_type [OF content decoded declared none]
  fix exts used errs'
  assume run: "loadExtensions E Report specs appDir dirs errs = (Inr (exts, used), errs')"
  then obtain results where
    all: "mapAll (loadExtension E Report specs) (glob E (extensionConfigPaths E appDir dirs)) errs
            = (Inr results, errs')"
    and exts: "exts = getArrayRejectingUndefined results"
    by (auto simp: loadExtensions_def Let_def bind_def return_def split: prod.splits sum.splits)
  show "path \<notin> ExtensionInstance.configurationPath ` set exts"
  proof
    assume "path \<in> ExtensionInstance.configurationPath ` set exts"
    then obtain inst where inst: "inst \<in> set exts" "ExtensionInstance.configurationPath inst = path"
      by auto
    then have "Some inst \<in> set results"
      by (auto simp: exts getArrayRejectingUndefined_def map_filter_def)
    from mapAll_results [OF all this] obtain x e1 e2 where
      x: "loadExtension E Report specs x e1 = (Inr (Some inst), e2)" by blast
    from loadExtension_instance_path [OF x] inst have "x = path" by simp
    with x show False
      by (simp add: step abortOrReport_def)
  qed
  from mapAll_elem [OF all grows_loadExtension found] obtain e1 e2 y where
    y: "loadExtension E Report specs path e1 = (Inr y, e2)" and le: "keysOf e2 \<subseteq> keysOf errs'"
    by blast
  from y have "path \<in> keysOf e2"
    by (auto simp: step abortOrReport_def keysOf_addError)
  with le have "path \<in> keysOf errs'" by blast
  then show "getError errs' path \<noteq> None"
    by (simp only: getError_keysOf)
next
  note none = findSpecificationForType_None [OF unknown]
  note step = loadExtension_unknown_type [OF content decoded declared none]
  have "\<exists>fl e'. mapAll (loadExtension E Strict specs) (glob E (extensionConfigPaths E appDir dirs)) errs
          = (Inl fl, e')"
    by (rule mapAll_fault [OF found]) (simp add: step abortOrReport_def throw_def)
  then show "\<exists>f errs'. loadExtensions E Strict specs appDir dirs errs = (Inl f, errs')"
    by (auto simp: loadExtensions_def Let_def bind_def)
qed

theorem loadExtensions_unknown_type_witness:
  "loadExtensions exampleEnv Report [uiSpecification] ''/app'' None []
     = (Inr ([\<lparr>ExtensionInstance.configuration = JObj [(''type'', JStr ''ui_extension'')],
               ExtensionInstance.configurationPath = ''/app/extensions/b/shopify.extension.toml'',
               entryPath = Some ''/app/extensions/b/src/index.tsx'',
               ExtensionInstance.directory = ''/app/extensions/b'',
               specification' = uiSpecification\<rparr>], False),
        [(''/app/extensions/a/shopify.extension.toml'',
          ''Unknown extension type unknown-kind in /app/extensions/a/shopify.extension.toml. '')])
   \<and> ''/app/extensions/a/shopify.extension.toml''
        \<notin> ExtensionInstance.configurationPath `
            set (fst (projr (fst (loadExtensions exampleEnv Report [uiSpecification] ''/app'' None []))))
   \<and> getError (snd (loadExtensions exampleEnv Report [uiSpecification] ''/app'' None []))
        ''/app/extensions/a/shopify.extension.toml'' \<noteq> None
   \<and> loadExtensions exampleEnv Strict [uiSpecification] ''/app'' None []
     = (Inl (AbortError
          ''Unknown extension type unknown-kind in /app/extensions/a/shopify.extension.toml. ''), [])"
  using loadExtensions_unknown_type
      [where E = exampleEnv and appDir = "''/app''" and dirs = None
         and path = "''/app/extensions/a/shopify.extension.toml''"
         and content = "''/app/extensions/a/shopify.extension.toml''"
         and obj = "JObj [(''type'', JStr ''unknown-kind'')]" and t = "''unknown-kind''"
         and specs = "[uiSpecification]" and errs = "[]"]
  by (simp add: exampleEnv_def run_defs)

subsection \<open>The root directory\<close>

lemma firstMatch_None:
  "firstMatch matcher ds = None \<longleftrightarrow> (\<forall>d \<in> set ds. matcher d = None)"
  by (induction ds) (auto split: option.splits)

lemma firstMatch_Some:
  "firstMatch matcher ds = Some r \<longleftrightarrow>
     (\<exists>pre d post. ds = pre @ d # post \<and> (\<forall>x \<in> set pre. matcher x = None) \<and> matcher d = Some r)"
proof (induction ds)
  case Nil
  then show ?case by simp
next
  case (Cons a ds)
  show ?case
  proof (cases "matcher a")
    case None
    have "(\<exists>pre d post. a # ds = pre @ d # post \<and> (\<forall>x \<in> set pre. matcher x = None) \<and> matcher d = Some r)
        \<longleftrightarrow> (\<exists>pre d post. ds = pre @ d # post \<and> (\<forall>x \<in> set pre. matcher x = None) \<and> matcher d = Some r)"
      (is "?L \<longleftrightarrow> ?R")
    proof
      assume ?L
      then obtain pre d post where
        *: "a # ds = pre @ d # post" "\<forall>x \<in> set pre. matcher x = None" "matcher d = Some r"
        by blast
      with None obtain pre' where "pre = a # pre'"
        by (cases pre) auto
      with * show ?R by auto
    next
      assume ?R
      then obtain pre d post where
        *: "ds = pre @ d # post" "\<forall>x \<in> set pre. matcher x = None" "matcher d = Some r"
        by blast
      with None have "a # ds = (a # pre) @ d # post \<and> (\<forall>x \<in> set (a # pre). matcher x = None)"
        by simp
      with *(3) show ?L by blast
    qed
    with None Cons.IH show ?thesis by simp
  next
    case (Some s)
    have "(\<exists>pre d post. a # ds = pre @ d # post \<and> (\<forall>x \<in> set pre. matcher x = None) \<and> matcher d = Some r)
        \<longleftrightarrow> s = r"
    proof
      assume "\<exists>pre d post. a # ds = pre @ d # post \<and> (\<forall>x \<in> set pre. matcher x = None) \<and> matcher d = Some r"
      then obtain pre d post where
        *: "a # ds = pre @ d # post" "\<forall>x \<in> set pre. matcher x = None" "matcher d = Some r"
        by blast
      with Some show "s = r" by (cases pre) auto
    next
      assume "s = r"
      with Some have "a # ds = [] @ a # ds \<and> (\<forall>x \<in> set []. matcher x = None) \<and> matcher a = Some r"
        by simp
      then show "\<exists>pre d post. a # ds = pre @ d # post \<and> (\<forall>x \<in> set pre. matcher x = None) \<and> matcher d = Some r"
        by blast
    qed
    with Some show ?thesis by simp
  qed
qed

text \<open>
  Claim C6. When the starting directory does not exist, \<open>getAppDirectory\<close> raises an
  \<open>AbortError\<close> that names the directory, and so does the whole load in either mode. When
  it exists and no directory on the way up has a file matching \<open>shopify.app*.toml\<close>, both
  raise an \<open>AbortError\<close> with another message. Whenever \<open>getAppDirectory\<close> returns, the
  result is a directory on the way up that has such a file while no nearer one has; and it
  does return the nearest such directory whenever there is one.
\<close>

theorem getAppDirectory_resolution:
  "(\<not> fileExists E dir \<longrightarrow>
      getAppDirectory E dir errs = (Inl (AbortError (''Couldn't find directory '' @ dir)), errs)
      \<and> loaded E mode specs dir configName errs
            = (Inl (AbortError (''Couldn't find directory '' @ dir)), errs))
   \<and> (fileExists E dir
        \<and> (\<forall>d \<in> set (ancestors E dir). glob E [joinPath E [d, ''shopify.app*.toml'']] = []) \<longrightarrow>
      getAppDirectory E dir errs
        = (Inl (AbortError (''Couldn't find the configuration file for '' @ dir
                  @ '', are you in an app directory?'')), errs)
      \<and> loaded E mode specs dir configName errs
        = (Inl (AbortError (''Couldn't find the configuration file for '' @ dir
                  @ '', are you in an app directory?'')), errs))
   \<and> ''Couldn't find directory '' @ dir
        \<noteq> ''Couldn't find the configuration file for '' @ dir @ '', are you in an app directory?''
   \<and> (\<forall>found errs'. getAppDirectory E dir errs = (Inr found, errs') \<longrightarrow>
        errs' = errs
        \<and> (\<exists>nearer farther. ancestors E dir = nearer @ found # farther
              \<and> (\<forall>d \<in> set nearer. glob E [joinPath E [d, ''shopify.app*.toml'']] = [])
              \<and> glob E [joinPath E [found, ''shopify.app*.toml'']] \<noteq> []))
   \<and> (\<forall>nearer found farther.
        fileExists E dir \<and> ancestors E dir = nearer @ found # farther
        \<and> (\<forall>d \<in> set nearer. glob E [joinPath E [d, ''shopify.app*.toml'']] = [])
        \<and> glob E [joinPath E [found, ''shopify.app*.toml'']] \<noteq> [] \<and> found \<noteq> [] \<longrightarrow>
        getAppDirectory E dir errs = (Inr found, errs))"
proof -
  let ?matcher = "\<lambda>d. if length (glob E [joinPath E [d, ''shopify.app*.toml'']]) > 0
                      then Some d else None"
  have missing: "\<not> fileExists E dir \<Longrightarrow>
      getAppDirectory E dir = throw (AbortError (''Couldn't find directory '' @ dir))"
    by (simp add: getAppDirectory_def)
  have nomatch: "getAppDirectory E dir
        = throw (AbortError (''Couldn't find the configuration file for '' @ dir
                  @ '', are you in an app directory?''))"
    if "fileExists E dir"
      and "\<forall>d \<in> set (ancestors E dir). glob E [joinPath E [d, ''shopify.app*.toml'']] = []"
  proof -
    from that(2) have "firstMatch ?matcher (ancestors E dir) = None"
      by (simp add: firstMatch_None)
    with that(1) show ?thesis
      by (simp add: getAppDirectory_def findPathUp_def)
  qed
  have up: "loaded E mode specs dir configName = throw f" if "getAppDirectory E dir = throw f" for f
    using that by (simp add: loaded_def configurationLoader_loaded_def bind_throw)
  have success: "errs' = errs
        \<and> (\<exists>nearer farther. ancestors E dir = nearer @ found # farther
              \<and> (\<forall>d \<in> set nearer. glob E [joinPath E [d, ''shopify.app*.toml'']] = [])
              \<and> glob E [joinPath E [found, ''shopify.app*.toml'']] \<noteq> [])"
    if run: "getAppDirectory E dir errs = (Inr found, errs')" for found errs'
  proof -
    from run have fm: "firstMatch ?matcher (ancestors E dir) = Some found" and "errs' = errs"
      by (auto simp: getAppDirectory_def findPathUp_def Let_def throw_def return_def
          split: if_splits option.splits)
    from fm obtain pre d post where
      *: "ancestors E dir = pre @ d # post" "\<forall>x \<in> set pre. ?matcher x = None" "?matcher d = Some found"
      unfolding firstMatch_Some by blast
    from *(3) have "d = found" "glob E [joinPath E [found, ''shopify.app*.toml'']] \<noteq> []"
      by (auto split: if_splits)
    moreover from *(2) have "\<forall>x \<in> set pre. glob E [joinPath E [x, ''shopify.app*.toml'']] = []"
      by (auto split: if_splits)
    ultimately show ?thesis
      using *(1) \<open>errs' = errs\<close> by blast
  qed
  have nearest: "getAppDirectory E dir errs = (Inr found, errs)"
    if "fileExists E dir" "ancestors E dir = nearer @ found # farther"
      "\<forall>d \<in> set nearer. glob E [joinPath E [d, ''shopify.app*.toml'']] = []"
      "glob E [joinPath E [found, ''shopify.app*.toml'']] \<noteq> []" "found \<noteq> []"
    for nearer found farther
  proof -
    from that have "firstMatch ?matcher (ancestors E dir) = Some found"
      unfolding firstMatch_Some by (intro exI [of _ nearer] exI [of _ found] exI [of _ farther]) simp
    with that(1,5) show ?thesis
      by (simp add: getAppDirectory_def findPathUp_def return_def)
  qed
  show ?thesis
    apply (intro conjI impI allI)
    subgoal by (simp add: missing throw_def)
    subgoal by (simp add: up [OF missing] throw_def)
    subgoal by (simp add: nomatch throw_def)
    subgoal by (simp add: up [OF nomatch] throw_def)
    subgoal by simp
    subgoal using success by blast
    subgoal using success by blast
    subgoal using nearest by blast
    done
qed

theorem getAppDirectory_resolution_witness:
  "getAppDirectory exampleEnv ''/nowhere'' [] = (Inl (AbortError ''Couldn't find directory /nowhere''), [])
   \<and> loaded exampleEnv Report [uiSpecification] ''/nowhere'' None []
       = (Inl (AbortError ''Couldn't find directory /nowhere''), [])
   \<and> getAppDirectory exampleEnv ''/tmp'' []
       = (Inl (AbortError ''Couldn't find the configuration file for /tmp, are you in an app directory?''), [])
   \<and> loaded exampleEnv Report [uiSpecification] ''/tmp'' None []
       = (Inl (AbortError ''Couldn't find the configuration file for /tmp, are you in an app directory?''), [])
   \<and> getAppDirectory exampleEnv ''/app/extensions/b'' [] = (Inr ''/app'', [])"
  using getAppDirectory_resolution
      [where E = exampleEnv and dir = "''/nowhere''" and mode = Report and specs = "[uiSpecification]"
         and configName = None and errs = "[]"]
    getAppDirectory_resolution
      [where E = exampleEnv and dir = "''/tmp''" and mode = Report and specs = "[uiSpecification]"
         and configName = None and errs = "[]"]
    getAppDirectory_resolution
      [where E = exampleEnv and dir = "''/app/extensions/b''" and mode = Report
         and specs = "[uiSpecification]" and configName = None and errs = "[]"]
  by (simp add: exampleEnv_def run_defs)

subsection \<open>The assembled app\<close>

text \<open>
  Claim C10. When a load that started with an empty error set completes, the attribute
  \<open>errors\<close> of the app is set exactly when the error set is not empty at the end, that is,
  when some message was recorded; and when the attribute is set, it is that error set.
\<close>

theorem loaded_errors_attribute:
  assumes "loaded E mode specs dir configName [] = (Inr app, errs)"
  shows "(errors app \<noteq> None \<longleftrightarrow> \<not> isEmpty errs)
    \<and> (errors app = None \<or> errors app = Some errs)
    \<and> (isEmpty errs \<longleftrightarrow> errs = [])"
  using assms
  by (auto simp: loaded_def Let_def bind_Inr_iff logMetadataForLoadedApp_def lift_Inr_iff
      return_def isEmpty_def split: prod.splits if_splits)


lemma example_loaded:
  "loaded exampleEnv Report [uiSpecification] ''/app/extensions/b'' None []
   = (Inr \<lparr>name = ''app'',
           idEnvironmentVariableName = ''SHOPIFY_API_KEY'',
           App.directory = ''/app'',
           packageManager = ''npm'',
           App.configuration = JObj [],
           App.configurationPath = ''/app/shopify.app.toml'',
           nodeDependencies = [],
           webs = [],
           allExtensions =
             [\<lparr>ExtensionInstance.configuration = JObj [(''type'', JStr ''ui_extension'')],
               ExtensionInstance.configurationPath = ''/app/extensions/b/shopify.extension.toml'',
               entryPath = Some ''/app/extensions/b/src/index.tsx'',
               ExtensionInstance.directory = ''/app/extensions/b'',
               specification' = uiSpecification\<rparr>],
           usesWorkspaces = False,
           dotenv = None,
           errors = Some [(''/app/extensions/a/shopify.extension.toml'',
             ''Unknown extension type unknown-kind in /app/extensions/a/shopify.extension.toml. '')]\<rparr>,
      [(''/app/extensions/a/shopify.extension.toml'',
        ''Unknown extension type unknown-kind in /app/extensions/a/shopify.extension.toml. '')])"
  by (simp add: exampleEnv_def run_defs)


lemma example_loaded_clean:
  "loaded (exampleEnv\<lparr>glob := (\<lambda>patterns.
              if patterns = [''/app/shopify.app*.toml''] then [''/app/shopify.app.toml''] else [])\<rparr>)
      Strict [uiSpecification] ''/app/extensions/b'' None []
   = (Inr \<lparr>name = ''app'',
           idEnvironmentVariableName = ''SHOPIFY_API_KEY'',
           App.directory = ''/app'',
           packageManager = ''npm'',
           App.configuration = JObj [],
           App.configurationPath = ''/app/shopify.app.toml'',
           nodeDependencies = [],
           webs = [],
           allExtensions = [],
           usesWorkspaces = False,
           dotenv = None,
           errors = None\<rparr>,
      [])"
  by (simp add: exampleEnv_def run_defs)

theorem loaded_errors_attribute_witness:
  "map_sum id errors (fst (loaded exampleEnv Report [uiSpecification] ''/app/extensions/b'' None []))
     = Inr (Some [(''/app/extensions/a/shopify.extension.toml'',
         ''Unknown extension type unknown-kind in /app/extensions/a/shopify.extension.toml. '')])
   \<and> snd (loaded exampleEnv Report [uiSpecification] ''/app/extensions/b'' None [])
     = [(''/app/extensions/a/shopify.extension.toml'',
         ''Unknown extension type unknown-kind in /app/extensions/a/shopify.extension.toml. '')]
   \<and> map_sum id errors
        (fst (loaded (exampleEnv\<lparr>glob := (\<lambda>patterns.
                 if patterns = [''/app/shopify.app*.toml''] then [''/app/shopify.app.toml''] else [])\<rparr>)
           Strict [uiSpecification] ''/app/extensions/b'' None []))
     = Inr None
   \<and> snd (loaded (exampleEnv\<lparr>glob := (\<lambda>patterns.
                 if patterns = [''/app/shopify.app*.toml''] then [''/app/shopify.app.toml''] else [])\<rparr>)
           Strict [uiSpecification] ''/app/extensions/b'' None [])
     = []"
  using loaded_errors_attribute [OF example_loaded] loaded_errors_attribute [OF example_loaded_clean]
  by (simp add: example_loaded example_loaded_clean)

end
